theory Spec2Isabelle
  imports Main "HOL-Library.AList" "HOL-Library.Multiset"
begin

section \<open>JavaScript values\<close>

text \<open>
  The server (\<^verbatim>\<open>server.js\<close>) handles JSON: request bodies, the remote inventory's
  answers and the rows read back from the audit table are JavaScript values. Numbers are
  modelled as integers (identifiers, counts and epoch milliseconds are); an object is the
  list of its own properties in enumeration order, each key once.
\<close>

datatype jsval =
    JUndefined
  | JNull
  | JBool bool
  | JNum int
  | JStr string
  | JArr "jsval list"
  | JObj "(string \<times> jsval) list"

text \<open>Truthiness, as \<^verbatim>\<open>!v\<close>, \<^verbatim>\<open>a || b\<close> and \<^verbatim>\<open>a && b\<close> read it.\<close>

fun truthy :: "jsval \<Rightarrow> bool" where
  "truthy JUndefined = False"
| "truthy JNull = False"
| "truthy (JBool b) = b"
| "truthy (JNum n) = (n \<noteq> 0)"
| "truthy (JStr s) = (s \<noteq> [])"
| "truthy (JArr xs) = True"
| "truthy (JObj kvs) = True"

definition or_else :: "jsval \<Rightarrow> jsval \<Rightarrow> jsval" where
  "or_else a b = (if truthy a then a else b)"

text \<open>
  Strict equality \<^verbatim>\<open>a === b\<close>: same type and same value for primitives. Arrays and objects
  are compared by reference, and two values decoded from JSON never share one.
\<close>

fun strict_eq :: "jsval \<Rightarrow> jsval \<Rightarrow> bool" where
  "strict_eq JUndefined JUndefined = True"
| "strict_eq JNull JNull = True"
| "strict_eq (JBool a) (JBool b) = (a = b)"
| "strict_eq (JNum a) (JNum b) = (a = b)"
| "strict_eq (JStr a) (JStr b) = (a = b)"
| "strict_eq a b = False"

text \<open>
  Property access \<^verbatim>\<open>v.k\<close> on a value that is neither null nor undefined (a missing
  property reads as undefined), and destructuring of the request body. The names the
  handlers read this way are none of those a value inherits; \<^verbatim>\<open>length\<close>, which arrays and
  strings have, is read by \<open>js_length\<close> below.
\<close>

fun js_prop :: "jsval \<Rightarrow> string \<Rightarrow> jsval" where
  "js_prop (JObj kvs) k = (case map_of kvs k of Some v \<Rightarrow> v | None \<Rightarrow> JUndefined)"
| "js_prop v k = JUndefined"

text \<open>
  A thrown error, as the handlers' \<^verbatim>\<open>catch\<close> blocks read it: \<^verbatim>\<open>error.response\<close> (status and
  data, present on an HTTP error answer) and \<^verbatim>\<open>error.message\<close>.
\<close>

datatype js_error = JsError (response_of: "(nat \<times> jsval) option") (message_of: string)

definition cannot_read :: "jsval \<Rightarrow> string \<Rightarrow> js_error" where
  "cannot_read v k = JsError None
     (''Cannot read properties of '' @ (if v = JNull then ''null'' else ''undefined'')
        @ '' (reading '' @ [CHR 39] @ k @ [CHR 39] @ '')'')"

text \<open>Property access \<^verbatim>\<open>v.k\<close> on any value: a TypeError on null and undefined.\<close>

definition get_prop :: "jsval \<Rightarrow> string \<Rightarrow> js_error + jsval" where
  "get_prop v k = (if v = JUndefined \<or> v = JNull then Inl (cannot_read v k) else Inr (js_prop v k))"

text \<open>Optional chaining \<^verbatim>\<open>v?.k\<close>.\<close>

definition opt_prop :: "jsval \<Rightarrow> string \<Rightarrow> jsval" where
  "opt_prop v k = (if v = JUndefined \<or> v = JNull then JUndefined else js_prop v k)"

text \<open>\<^verbatim>\<open>error.response?.status || 500\<close> and \<^verbatim>\<open>error.response?.data || error.message\<close>.\<close>

definition error_status :: "js_error \<Rightarrow> nat" where
  "error_status e =
     (case response_of e of Some (s, d) \<Rightarrow> (if s \<noteq> 0 then s else 500) | None \<Rightarrow> 500)"

definition error_details :: "js_error \<Rightarrow> jsval" where
  "error_details e =
     (case response_of e of
        Some (s, d) \<Rightarrow> or_else d (JStr (message_of e))
      | None \<Rightarrow> JStr (message_of e))"

subsection \<open>Strings\<close>

text \<open>
  A string is the list of its UTF-16 code units. The model has the strings whose code
  units are below 256 (Latin-1), one character for each unit. On these \<^verbatim>\<open>toLowerCase\<close>
  moves the capital letters (A to Z, U+00C0 to U+00D6 and U+00D8 to U+00DE) 32 places on,
  to their small letters, and \<^verbatim>\<open>trim\<close> strips tab, line feed, vertical tab, form feed,
  carriage return, space and the no-break space U+00A0.
\<close>

definition lower_char :: "char \<Rightarrow> char" where
  "lower_char c =
     (if 65 \<le> (of_char c :: nat) \<and> (of_char c :: nat) \<le> 90
         \<or> 192 \<le> (of_char c :: nat) \<and> (of_char c :: nat) \<le> 222 \<and> (of_char c :: nat) \<noteq> 215
      then char_of ((of_char c :: nat) + 32) else c)"

definition toLowerCase :: "string \<Rightarrow> string" where
  "toLowerCase s = map lower_char s"

definition is_space :: "char \<Rightarrow> bool" where
  "is_space c = ((of_char c :: nat) \<in> {9, 10, 11, 12, 13, 32, 160})"

definition trim :: "string \<Rightarrow> string" where
  "trim s = rev (dropWhile is_space (rev (dropWhile is_space s)))"

fun js_includes :: "string \<Rightarrow> string \<Rightarrow> bool" where
  "js_includes [] p = (p = [])"
| "js_includes (c # cs) p = (take (length p) (c # cs) = p \<or> js_includes cs p)"

text \<open>The decimal name of an array index.\<close>

fun dec :: "nat \<Rightarrow> string" where
  "dec n = (if n < 10 then [char_of (48 + n)] else dec (n div 10) @ [char_of (48 + n mod 10)])"

declare dec.simps [simp del]

text \<open>
  \<^verbatim>\<open>v.toLowerCase()\<close>: defined on strings, a TypeError on every other value; \<open>expr\<close> is
  the source text of \<open>v\<close>, which the engine puts in the message.
\<close>

definition to_lower :: "string \<Rightarrow> jsval \<Rightarrow> js_error + string" where
  "to_lower expr v =
     (case v of
        JStr s \<Rightarrow> Inr (toLowerCase s)
      | _ \<Rightarrow> Inl (JsError None (expr @ ''.toLowerCase is not a function'')))"

text \<open>\<^verbatim>\<open>Object.entries(v)\<close>; \<^verbatim>\<open>Object.keys(v)\<close> is its first projection.\<close>

fun entries :: "jsval \<Rightarrow> (string \<times> jsval) list" where
  "entries (JObj kvs) = kvs"
| "entries (JArr xs) = zip (map dec [0..<length xs]) xs"
| "entries (JStr s) = zip (map dec [0..<length s]) (map (\<lambda>c. JStr [c]) s)"
| "entries v = []"

definition is_array :: "jsval \<Rightarrow> bool" where
  "is_array v = (case v of JArr xs \<Rightarrow> True | _ \<Rightarrow> False)"

fun elements :: "jsval \<Rightarrow> jsval list" where
  "elements (JArr xs) = xs"
| "elements v = []"

text \<open>
  \<^verbatim>\<open>v.length\<close> on a value that is neither null nor undefined: the number of elements of an
  array and of code units of a string, the property of that name of an object, undefined
  on a number and on a boolean.
\<close>

definition js_length :: "jsval \<Rightarrow> jsval" where
  "js_length v =
     (case v of
        JArr xs \<Rightarrow> JNum (int (length xs))
      | JStr s \<Rightarrow> JNum (int (length s))
      | JObj kvs \<Rightarrow> js_prop v ''length''
      | _ \<Rightarrow> JUndefined)"

text \<open>
  \<^verbatim>\<open>xs.concat(v)\<close>: the elements of an array \<open>v\<close> are appended, any other value is
  appended as one element.
\<close>

definition js_concat :: "jsval list \<Rightarrow> jsval \<Rightarrow> jsval list" where
  "js_concat xs v = (case v of JArr ys \<Rightarrow> xs @ ys | _ \<Rightarrow> xs @ [v])"

subsection \<open>Conversions\<close>

text \<open>
  A template literal converts the values it interpolates to strings, a comparison
  converts its operands to primitives. Both call the value's \<^verbatim>\<open>toString\<close> and \<^verbatim>\<open>valueOf\<close>.
  An object decoded from JSON inherits them, unless it has a property named \<^verbatim>\<open>toString\<close>
  of its own, which is then no function: the inherited \<^verbatim>\<open>valueOf\<close> returns the object
  itself, no primitive is found, and the conversion throws a TypeError. An array is
  converted by joining the conversions of its elements, so it throws when one of them
  does. The conversion of every other value succeeds.
\<close>

fun unprintable :: "jsval \<Rightarrow> bool" where
  "unprintable (JObj kvs) = (map_of kvs ''toString'' \<noteq> None)"
| "unprintable (JArr xs) = (\<exists>x \<in> set xs. unprintable x)"
| "unprintable v = False"

definition primitive_error :: js_error where
  "primitive_error = JsError None ''Cannot convert object to primitive value''"

text \<open>
  The number an array turns into, which is the number its text denotes. The text of the
  empty array is empty and denotes 0; that of a one-element array is the text of the
  element (empty for null and undefined), which for a number denotes that number; the
  text of a longer array has a comma and denotes none (\<open>None\<close> is NaN), as do the texts
  of booleans and objects. \<open>to_number\<close> is the number a string denotes, the engine's own
  parsing and a parameter of the model.
\<close>

fun text_number :: "(string \<Rightarrow> int option) \<Rightarrow> jsval \<Rightarrow> int option" where
  "text_number to_number (JNum n) = Some n"
| "text_number to_number (JStr s) = to_number s"
| "text_number to_number (JArr []) = Some 0"
| "text_number to_number (JArr [x]) =
     (if x = JUndefined \<or> x = JNull then Some 0 else text_number to_number x)"
| "text_number to_number (JArr (x # y # zs)) = None"
| "text_number to_number v = None"

text \<open>The number a value is converted to where a number is wanted: \<open>Inr None\<close> is NaN.\<close>

definition js_number :: "(string \<Rightarrow> int option) \<Rightarrow> jsval \<Rightarrow> js_error + int option" where
  "js_number to_number v =
     (if unprintable v then Inl primitive_error
      else Inr (case v of
                  JUndefined \<Rightarrow> None
                | JNull \<Rightarrow> Some 0
                | JBool b \<Rightarrow> Some (if b then 1 else 0)
                | JNum n \<Rightarrow> Some n
                | JStr s \<Rightarrow> to_number s
                | JArr xs \<Rightarrow> text_number to_number v
                | JObj kvs \<Rightarrow> None))"

text \<open>
  \<^verbatim>\<open>v < n\<close> and \<^verbatim>\<open>n >= v\<close> for a number \<open>n\<close>: both are false when \<open>v\<close> converts to NaN.
\<close>

definition js_less :: "(string \<Rightarrow> int option) \<Rightarrow> jsval \<Rightarrow> int \<Rightarrow> js_error + bool" where
  "js_less to_number v n =
     (case js_number to_number v of
        Inl e \<Rightarrow> Inl e
      | Inr None \<Rightarrow> Inr False
      | Inr (Some x) \<Rightarrow> Inr (x < n))"

definition js_at_least :: "(string \<Rightarrow> int option) \<Rightarrow> int \<Rightarrow> jsval \<Rightarrow> js_error + bool" where
  "js_at_least to_number n v =
     (case js_number to_number v of
        Inl e \<Rightarrow> Inl e
      | Inr None \<Rightarrow> Inr False
      | Inr (Some x) \<Rightarrow> Inr (x \<le> n))"

text \<open>
  The conversion of a 64-bit integer to a JavaScript number, a double: an integer of more
  than 53 bits is rounded to 53 significant bits, to the nearest and on a tie to the even
  one.
\<close>

fun bit_length :: "nat \<Rightarrow> nat" where
  "bit_length n = (if n = 0 then 0 else Suc (bit_length (n div 2)))"

declare bit_length.simps [simp del]

definition js_double :: "int \<Rightarrow> int" where
  "js_double i =
     (let a = nat \<bar>i\<bar>;
          u = 2 ^ (bit_length a - 53);
          q = a div u;
          r = a mod u;
          m = (if u < 2 * r \<or> 2 * r = u \<and> odd q then q + 1 else q)
      in sgn i * int (m * u))"

section \<open>The remote inventory\<close>

text \<open>
  Every call to the Snipe-IT API goes through \<^verbatim>\<open>axios\<close>. The remote service is not part
  of the program: it is a parameter, a function from the calls made so far and the
  current call to either the error \<^verbatim>\<open>axios\<close> throws or the answer's \<^verbatim>\<open>data\<close>. The world
  keeps the log of calls, so that a handler that leaves the log alone has made no call.

  The note of an audit post is the request's \<^verbatim>\<open>notes\<close>, or the text of a template literal.
  That text is determined by the three values the template interpolates, and the call
  carries them in its place.
\<close>

datatype post_note = Notes jsval | Template string jsval jsval

datatype remote_call =
    GetHardwareByTag jsval string
  | GetHardwareSearch jsval string nat
  | GetHardwarePage jsval nat nat
  | PostHardwareAudit jsval jsval jsval post_note
  | PatchHardware jsval jsval jsval

type_synonym remote = "remote_call list \<Rightarrow> remote_call \<Rightarrow> js_error + jsval"

section \<open>The audit table\<close>

text \<open>
  The table \<^verbatim>\<open>audits\<close> of the SQLite database, one record per row, columns as
  \<^verbatim>\<open>CREATE TABLE\<close> declares them (\<open>audit_id\<close> and \<open>audit_notes\<close> are the columns
  \<^verbatim>\<open>id\<close> and \<^verbatim>\<open>notes\<close>). A column holds \<open>JNull\<close>, a \<open>JNum\<close> or a \<open>JStr\<close>, and a
  value is stored as it was bound: the conversions of SQLite's column affinities are not
  followed.
\<close>

record audit =
  audit_id :: int
  asset_id :: jsval
  asset_tag :: jsval
  asset_name :: jsval
  sap_asset_number :: jsval
  expected_location_id :: jsval
  expected_location_name :: jsval
  actual_location_id :: jsval
  actual_location_name :: jsval
  status :: jsval
  audit_notes :: jsval
  user_name :: jsval
  snipeit_audit_posted :: jsval
  created_at :: jsval
  resolved_at :: jsval
  resolved_by :: jsval

text \<open>
  The state the handlers share: the table with its \<^verbatim>\<open>AUTOINCREMENT\<close> counter (the largest
  id ever given), the slot \<^verbatim>\<open>assetCache\<close>, and the log of remote calls.
\<close>

record world =
  audits :: "audit list"
  sqlite_sequence :: int
  assetCache_data :: jsval
  assetCache_timestamp :: "int option"
  remote_log :: "remote_call list"

definition axios :: "remote \<Rightarrow> remote_call \<Rightarrow> world \<Rightarrow> (js_error + jsval) \<times> world" where
  "axios remote c w = (remote (remote_log w) c, w\<lparr>remote_log := remote_log w @ [c]\<rparr>)"

subsection \<open>Binding the parameters of a statement\<close>

text \<open>
  The statements are run through \<^verbatim>\<open>better-sqlite3\<close>, whose binder gives the arguments of
  \<^verbatim>\<open>run\<close> and \<^verbatim>\<open>get\<close> to the statement's \<^verbatim>\<open>?\<close> parameters, from left to right. One value
  binds as follows: a number and a string as they are, null and undefined as NULL; a
  boolean, an array and an object raise the binder's TypeError.
\<close>

definition bind_value :: "jsval \<Rightarrow> js_error + jsval" where
  "bind_value v =
     (case v of
        JUndefined \<Rightarrow> Inr JNull
      | JNull \<Rightarrow> Inr JNull
      | JNum n \<Rightarrow> Inr (JNum n)
      | JStr s \<Rightarrow> Inr (JStr s)
      | _ \<Rightarrow> Inl (JsError None
            ''SQLite3 can only bind numbers, strings, bigints, buffers, and null''))"

text \<open>
  Binding the next parameter of a statement with \<open>arity\<close> parameters, \<open>bound\<close> being
  the values bound so far: SQLite refuses a value bound past the last parameter.
\<close>

definition bind_next :: "nat \<Rightarrow> jsval list \<Rightarrow> jsval \<Rightarrow> js_error + jsval list" where
  "bind_next arity bound v =
     (case bind_value v of
        Inl e \<Rightarrow> Inl e
      | Inr b \<Rightarrow>
          if length bound < arity then Inr (bound @ [b])
          else Inl (JsError None ''Too many parameter values were provided''))"

text \<open>An argument that is an array gives its elements to the next parameters, one each.\<close>

fun bind_array :: "nat \<Rightarrow> jsval list \<Rightarrow> jsval list \<Rightarrow> js_error + jsval list" where
  "bind_array arity bound [] = Inr bound"
| "bind_array arity bound (v # vs) =
     (case bind_next arity bound v of
        Inl e \<Rightarrow> Inl e
      | Inr bound' \<Rightarrow> bind_array arity bound' vs)"

text \<open>
  The arguments in turn. An argument that is a plain object holds named parameters, of
  which the statements of this program have none: it binds nothing, and a second one is
  refused. \<open>named\<close> tells whether such an object has been seen.
\<close>

fun bind_arguments ::
  "nat \<Rightarrow> bool \<Rightarrow> jsval list \<Rightarrow> jsval list \<Rightarrow> js_error + bool \<times> jsval list" where
  "bind_arguments arity named bound [] = Inr (named, bound)"
| "bind_arguments arity named bound (arg # args) =
     (case arg of
        JArr vs \<Rightarrow>
          (case bind_array arity bound vs of
             Inl e \<Rightarrow> Inl e
           | Inr bound' \<Rightarrow> bind_arguments arity named bound' args)
      | JObj kvs \<Rightarrow>
          if named
          then Inl (JsError None
                 ''You cannot specify named parameters in two different objects'')
          else bind_arguments arity True bound args
      | _ \<Rightarrow>
          (case bind_next arity bound arg of
             Inl e \<Rightarrow> Inl e
           | Inr bound' \<Rightarrow> bind_arguments arity named bound' args))"

text \<open>
  All the arguments of one \<^verbatim>\<open>run\<close> or \<^verbatim>\<open>get\<close>: when they are bound, every parameter must
  have its value. The result is the list of the values of the parameters, in order.
\<close>

definition bind_parameters :: "nat \<Rightarrow> jsval list \<Rightarrow> js_error + jsval list" where
  "bind_parameters arity args =
     (case bind_arguments arity False [] args of
        Inl e \<Rightarrow> Inl e
      | Inr (named, bound) \<Rightarrow>
          if length bound < arity
          then Inl (JsError None ''Too few parameter values were provided'')
          else Inr bound)"

subsection \<open>The statements\<close>

text \<open>
  The row an \<^verbatim>\<open>INSERT\<close> makes of the values of its twelve parameters, in the statement's
  column order.
\<close>

definition new_audit :: "int \<Rightarrow> jsval \<Rightarrow> jsval list \<Rightarrow> audit" where
  "new_audit i created bound =
     \<lparr>audit_id = i, asset_id = bound ! 0, asset_tag = bound ! 1, asset_name = bound ! 2,
      sap_asset_number = bound ! 3, expected_location_id = bound ! 4,
      expected_location_name = bound ! 5, actual_location_id = bound ! 6,
      actual_location_name = bound ! 7, status = bound ! 8, audit_notes = bound ! 9,
      user_name = bound ! 10, snipeit_audit_posted = bound ! 11, created_at = created,
      resolved_at = JNull, resolved_by = JNull\<rparr>"

text \<open>The columns declared \<^verbatim>\<open>NOT NULL\<close>.\<close>

definition not_null_ok :: "audit \<Rightarrow> bool" where
  "not_null_ok r =
     (asset_id r \<noteq> JNull \<and> asset_tag r \<noteq> JNull \<and> actual_location_id r \<noteq> JNull
      \<and> actual_location_name r \<noteq> JNull \<and> status r \<noteq> JNull)"

text \<open>
  The largest id the table has ever held, as \<^verbatim>\<open>AUTOINCREMENT\<close> reads it: the counter, or
  the largest id in the table when that is larger.
\<close>

definition largest_rowid :: "world \<Rightarrow> int" where
  "largest_rowid w = fold max (map audit_id (audits w)) (sqlite_sequence w)"

text \<open>
  \<^verbatim>\<open>stmt.run(...)\<close> of the \<^verbatim>\<open>INSERT\<close>: it throws when the arguments do not bind, when a
  \<^verbatim>\<open>NOT NULL\<close> column gets NULL, or when the ids are used up; otherwise the row gets the
  next id, one more than the largest so far. The result is \<^verbatim>\<open>lastInsertRowid\<close>, that id
  as a JavaScript number. \<open>created\<close> is \<^verbatim>\<open>CURRENT_TIMESTAMP\<close>.
\<close>

definition insert_audit :: "jsval \<Rightarrow> jsval list \<Rightarrow> world \<Rightarrow> js_error + int \<times> world" where
  "insert_audit created args w =
     (case bind_parameters 12 args of
        Inl e \<Rightarrow> Inl e
      | Inr bound \<Rightarrow>
          let r = new_audit (largest_rowid w + 1) created bound in
          if \<not> not_null_ok r then Inl (JsError None ''NOT NULL constraint failed'')
          else if largest_rowid w \<ge> 9223372036854775807
          then Inl (JsError None ''database or disk is full'')
          else Inr (js_double (audit_id r),
                 w\<lparr>audits := audits w @ [r], sqlite_sequence := audit_id r\<rparr>))"

text \<open>
  The comparison \<^verbatim>\<open>WHERE id = ?\<close>. A number matches the row with that id; a text
  parameter (a route parameter is always text) is first converted by SQLite under the
  column's INTEGER affinity: \<open>numeric\<close> is that conversion, a parameter of the model.
\<close>

definition sql_id_eq :: "(string \<Rightarrow> int option) \<Rightarrow> jsval \<Rightarrow> int \<Rightarrow> bool" where
  "sql_id_eq numeric p i =
     (case p of JNum n \<Rightarrow> n = i | JStr s \<Rightarrow> numeric s = Some i | _ \<Rightarrow> False)"

text \<open>\<^verbatim>\<open>db.prepare('SELECT * FROM audits WHERE id = ?').get(auditId)\<close>\<close>

definition select_audit ::
  "(string \<Rightarrow> int option) \<Rightarrow> jsval \<Rightarrow> world \<Rightarrow> js_error + audit option" where
  "select_audit numeric auditId w =
     (case bind_parameters 1 [auditId] of
        Inl e \<Rightarrow> Inl e
      | Inr bound \<Rightarrow> Inr (find (\<lambda>r. sql_id_eq numeric (bound ! 0) (audit_id r)) (audits w)))"

text \<open>
  \<^verbatim>\<open>UPDATE audits SET status = 'resolved', resolved_at = ?, resolved_by = ? WHERE id = ?\<close>,
  run with the three arguments \<^verbatim>\<open>now\<close>, \<^verbatim>\<open>resolved_by || 'Admin'\<close> and \<^verbatim>\<open>auditId\<close>.
\<close>

definition update_resolved ::
  "(string \<Rightarrow> int option) \<Rightarrow> jsval \<Rightarrow> jsval \<Rightarrow> jsval \<Rightarrow> world \<Rightarrow> js_error + world" where
  "update_resolved numeric now by auditId w =
     (case bind_parameters 3 [now, by, auditId] of
        Inl e \<Rightarrow> Inl e
      | Inr bound \<Rightarrow>
          Inr (w\<lparr>audits :=
                 map (\<lambda>r. if sql_id_eq numeric (bound ! 2) (audit_id r)
                          then r\<lparr>status := JStr ''resolved'', resolved_at := bound ! 0,
                                 resolved_by := bound ! 1\<rparr>
                          else r)
                   (audits w)\<rparr>))"

text \<open>\<^verbatim>\<open>DELETE FROM audits WHERE id = ?\<close>\<close>

definition delete_where_id ::
  "(string \<Rightarrow> int option) \<Rightarrow> jsval \<Rightarrow> world \<Rightarrow> js_error + world" where
  "delete_where_id numeric v w =
     (case bind_parameters 1 [v] of
        Inl e \<Rightarrow> Inl e
      | Inr bound \<Rightarrow>
          Inr (w\<lparr>audits :=
                 filter (\<lambda>r. \<not> sql_id_eq numeric (bound ! 0) (audit_id r)) (audits w)\<rparr>))"

section \<open>Responses\<close>

text \<open>
  \<open>Response c b\<close> is \<^verbatim>\<open>res.status(c).json(b)\<close> (\<^verbatim>\<open>res.json(b)\<close> has status 200);
  \<open>Unhandled e\<close> is an error thrown outside every \<^verbatim>\<open>try\<close>: the handler writes no answer.
\<close>

datatype response = Response (status_code: nat) (json: jsval) | Unhandled js_error

definition error_json :: "string \<Rightarrow> jsval" where
  "error_json msg = JObj [(''error'', JStr msg)]"

text \<open>The \<^verbatim>\<open>catch\<close> block of the handlers that forward a remote error.\<close>

definition remote_failure :: "string \<Rightarrow> js_error \<Rightarrow> response" where
  "remote_failure msg e =
     Response (error_status e) (JObj [(''error'', JStr msg), (''details'', error_details e)])"


section \<open>Submitting an audit: \<^verbatim>\<open>POST /api/audit\<close>\<close>

definition audit_status :: "jsval \<Rightarrow> string" where
  "audit_status body =
     (if strict_eq (js_prop body ''expected_location_id'') (js_prop body ''actual_location_id'')
      then ''match'' else ''mismatch'')"

text \<open>
  The note sent with the audit, \<^verbatim>\<open>notes\<close> or the template literal when it is falsy, and
  the call that carries it.
\<close>

definition audit_note :: "jsval \<Rightarrow> post_note" where
  "audit_note body =
     (if truthy (js_prop body ''notes'') then Notes (js_prop body ''notes'')
      else Template (audit_status body) (js_prop body ''expected_location_name'')
             (js_prop body ''actual_location_name''))"

definition audit_call :: "jsval \<Rightarrow> jsval \<Rightarrow> remote_call" where
  "audit_call apiToken body =
     PostHardwareAudit apiToken (js_prop body ''asset_tag'') (js_prop body ''actual_location_id'')
       (audit_note body)"

text \<open>
  The body of the first \<^verbatim>\<open>try\<close>. The template literal is evaluated before the call: when
  one of the two names cannot be converted to a string it throws, and no call is made.
\<close>

definition audit_post :: "remote \<Rightarrow> jsval \<Rightarrow> jsval \<Rightarrow> world \<Rightarrow> (js_error + jsval) \<times> world" where
  "audit_post remote apiToken body w =
     (if \<not> truthy (js_prop body ''notes'')
         \<and> (unprintable (js_prop body ''expected_location_name'')
            \<or> unprintable (js_prop body ''actual_location_name''))
      then (Inl primitive_error, w)
      else axios remote (audit_call apiToken body) w)"

text \<open>The arguments of the \<^verbatim>\<open>INSERT\<close>, given the flag \<^verbatim>\<open>snipeitAuditPosted\<close>.\<close>

definition audit_args :: "jsval \<Rightarrow> int \<Rightarrow> jsval list" where
  "audit_args body snipeitAuditPosted =
     [js_prop body ''asset_id'', js_prop body ''asset_tag'', js_prop body ''asset_name'',
      or_else (js_prop body ''sap_asset_number'') JNull,
      js_prop body ''expected_location_id'', js_prop body ''expected_location_name'',
      js_prop body ''actual_location_id'', js_prop body ''actual_location_name'',
      JStr (audit_status body), js_prop body ''notes'', js_prop body ''user_name'',
      JNum snipeitAuditPosted]"

text \<open>The handler: the failure of the first \<^verbatim>\<open>try\<close> is only logged.\<close>

definition submit_audit :: "remote \<Rightarrow> jsval \<Rightarrow> jsval \<Rightarrow> jsval \<Rightarrow> world \<Rightarrow> response \<times> world" where
  "submit_audit remote created apiToken body w =
     (if \<not> truthy apiToken then (Response 401 (error_json ''API token required''), w)
      else
        let (posted, w1) = audit_post remote apiToken body w;
            snipeitAuditPosted = (case posted of Inr d \<Rightarrow> 1 | Inl e \<Rightarrow> 0)
        in case insert_audit created (audit_args body snipeitAuditPosted) w1 of
             Inr (lastInsertRowid, w2) \<Rightarrow>
               (Response 200
                  (JObj [(''success'', JBool True), (''id'', JNum lastInsertRowid),
                         (''status'', JStr (audit_status body)),
                         (''snipeit_audit_posted'', JBool (snipeitAuditPosted = 1))]),
                w2)
           | Inl e \<Rightarrow> (Response 500 (error_json ''Failed to save audit''), w1))"

section \<open>Resolving mismatches: \<^verbatim>\<open>POST /api/audits/resolve\<close>\<close>

text \<open>The entry the loop's \<^verbatim>\<open>catch\<close> pushes: \<^verbatim>\<open>error.response?.data?.messages || error.message\<close>.\<close>

definition caught_item :: "jsval \<Rightarrow> js_error \<Rightarrow> jsval" where
  "caught_item auditId e =
     JObj [(''id'', auditId),
           (''error'',
              or_else
                (case response_of e of Some (s, d) \<Rightarrow> opt_prop d ''messages'' | None \<Rightarrow> JUndefined)
                (JStr (message_of e)))]"

definition error_item :: "jsval \<Rightarrow> string \<Rightarrow> jsval" where
  "error_item auditId msg = JObj [(''id'', auditId), (''error'', JStr msg)]"

definition success_item :: "jsval \<Rightarrow> jsval" where
  "success_item auditId = JObj [(''id'', auditId), (''success'', JBool True)]"

text \<open>
  What one turn of the loop does: it pushes an entry to \<^verbatim>\<open>results\<close>, or one to \<^verbatim>\<open>errors\<close>,
  or it throws out of the loop.
\<close>

datatype turn = Resolved jsval | Failed jsval | Thrown js_error

text \<open>
  The \<^verbatim>\<open>catch\<close> block of the loop. Its first statement logs the template literal
  \<^verbatim>\<open>`Error resolving audit ${auditId}:`\<close>; when the id cannot be converted to a string this
  throws, inside the \<^verbatim>\<open>catch\<close>, before the entry is pushed.
\<close>

definition catch_block :: "jsval \<Rightarrow> js_error \<Rightarrow> turn" where
  "catch_block auditId e =
     (if unprintable auditId then Thrown primitive_error else Failed (caught_item auditId e))"

text \<open>One turn of the loop, for one id. \<open>now\<close> is \<^verbatim>\<open>new Date().toISOString()\<close>.\<close>

definition resolve_one ::
  "remote \<Rightarrow> (string \<Rightarrow> int option) \<Rightarrow> string \<Rightarrow> jsval \<Rightarrow> jsval \<Rightarrow> jsval \<Rightarrow> world
     \<Rightarrow> turn \<times> world" where
  "resolve_one remote numeric now apiToken resolver auditId w =
     (case select_audit numeric auditId w of
        Inl e \<Rightarrow> (catch_block auditId e, w)
      | Inr None \<Rightarrow> (Failed (error_item auditId ''Audit not found''), w)
      | Inr (Some audit) \<Rightarrow>
          if \<not> strict_eq (status audit) (JStr ''mismatch'')
          then (Failed (error_item auditId ''Audit is not a mismatch''), w)
          else if truthy (resolved_at audit)
          then (Failed (error_item auditId ''Already resolved''), w)
          else
            let (patched, w1) =
                  axios remote
                    (PatchHardware apiToken (asset_id audit) (actual_location_id audit)) w
            in case patched of
                 Inl e \<Rightarrow> (catch_block auditId e, w1)
               | Inr d \<Rightarrow>
                   (case update_resolved numeric (JStr now)
                           (or_else resolver (JStr ''Admin'')) auditId w1 of
                      Inl e \<Rightarrow> (catch_block auditId e, w1)
                    | Inr w2 \<Rightarrow> (Resolved (success_item auditId), w2)))"

text \<open>
  The loop over \<^verbatim>\<open>audit_ids\<close>, with the two lists it fills; \<open>clock i\<close> is the time read
  in turn \<open>i\<close>. It ends with the two lists, or with the error thrown out of a turn.
\<close>

fun resolve_loop ::
  "remote \<Rightarrow> (string \<Rightarrow> int option) \<Rightarrow> (nat \<Rightarrow> string) \<Rightarrow> jsval \<Rightarrow> jsval \<Rightarrow> nat \<Rightarrow> jsval list
     \<Rightarrow> jsval list \<times> jsval list \<times> world
     \<Rightarrow> (js_error + jsval list \<times> jsval list) \<times> world" where
  "resolve_loop remote numeric clock apiToken resolver i [] (results, errors, w) =
     (Inr (results, errors), w)"
| "resolve_loop remote numeric clock apiToken resolver i (auditId # rest) (results, errors, w) =
     (case resolve_one remote numeric (clock i) apiToken resolver auditId w of
        (Resolved item, w') \<Rightarrow>
          resolve_loop remote numeric clock apiToken resolver (Suc i) rest
            (results @ [item], errors, w')
      | (Failed item, w') \<Rightarrow>
          resolve_loop remote numeric clock apiToken resolver (Suc i) rest
            (results, errors @ [item], w')
      | (Thrown e, w') \<Rightarrow> (Inl e, w'))"

text \<open>
  The handler. The loop is in no \<^verbatim>\<open>try\<close> of the handler's: an error thrown out of it
  leaves the handler, and no answer is written.
\<close>

definition resolve_audits ::
  "string \<Rightarrow> remote \<Rightarrow> (string \<Rightarrow> int option) \<Rightarrow> (nat \<Rightarrow> string) \<Rightarrow> jsval \<Rightarrow> jsval \<Rightarrow> jsval
     \<Rightarrow> world \<Rightarrow> response \<times> world" where
  "resolve_audits ADMIN_PASSWORD remote numeric clock adminPassword apiToken body w =
     (let audit_ids = js_prop body ''audit_ids''; resolver = js_prop body ''resolved_by'' in
      if \<not> strict_eq adminPassword (JStr ADMIN_PASSWORD)
      then (Response 401 (error_json ''Admin password required''), w)
      else if \<not> truthy apiToken
      then (Response 401 (error_json ''Snipe-IT API token required''), w)
      else if \<not> truthy audit_ids \<or> \<not> is_array audit_ids \<or> length (elements audit_ids) = 0
      then (Response 400 (error_json ''audit_ids array is required''), w)
      else
        case resolve_loop remote numeric clock apiToken resolver 0 (elements audit_ids)
               ([], [], w) of
          (Inl e, w') \<Rightarrow> (Unhandled e, w')
        | (Inr (results, errors), w') \<Rightarrow>
            (Response 200
               (JObj [(''success'', JBool (length errors = 0)),
                      (''resolved'', JNum (int (length results))),
                      (''failed'', JNum (int (length errors))),
                      (''results'', JArr results), (''errors'', JArr errors)]),
             w'))"

section \<open>Deleting an audit: \<^verbatim>\<open>DELETE /api/audits/:id\<close>\<close>

definition delete_audit ::
  "string \<Rightarrow> (string \<Rightarrow> int option) \<Rightarrow> jsval \<Rightarrow> string \<Rightarrow> world \<Rightarrow> response \<times> world" where
  "delete_audit ADMIN_PASSWORD numeric adminPassword id_param w =
     (if \<not> strict_eq adminPassword (JStr ADMIN_PASSWORD)
      then (Response 401 (error_json ''Admin password required''), w)
      else case delete_where_id numeric (JStr id_param) w of
             Inr w' \<Rightarrow> (Response 200 (JObj [(''success'', JBool True)]), w')
           | Inl e \<Rightarrow> (Response 500 (error_json ''Failed to delete audit''), w))"

section \<open>Patching one asset's location: \<^verbatim>\<open>PATCH /api/assets/:id/location\<close>\<close>

definition patch_location ::
  "string \<Rightarrow> remote \<Rightarrow> jsval \<Rightarrow> jsval \<Rightarrow> jsval \<Rightarrow> string \<Rightarrow> world \<Rightarrow> response \<times> world" where
  "patch_location ADMIN_PASSWORD remote adminPassword apiToken body id_param w =
     (let location_id = js_prop body ''location_id'' in
      if \<not> strict_eq adminPassword (JStr ADMIN_PASSWORD)
      then (Response 401 (error_json ''Admin password required''), w)
      else if \<not> truthy apiToken
      then (Response 401 (error_json ''Snipe-IT API token required''), w)
      else if \<not> truthy location_id
      then (Response 400 (error_json ''location_id is required''), w)
      else
        let (patched, w1) = axios remote (PatchHardware apiToken (JStr id_param) location_id) w
        in case patched of
             Inr d \<Rightarrow> (Response 200 (JObj [(''success'', JBool True), (''asset'', d)]), w1)
           | Inl e \<Rightarrow> (remote_failure ''Failed to update asset location'' e, w1))"

section \<open>SAP custom fields\<close>

text \<open>
  The test both handlers make on a custom field, \<^verbatim>\<open>fieldName.toLowerCase().includes('sap')
  || (fieldData && fieldData.field && fieldData.field.toLowerCase().includes('sap'))\<close>.
\<close>

definition field_is_sap :: "string \<Rightarrow> jsval \<Rightarrow> js_error + bool" where
  "field_is_sap fieldName fieldData =
     (if js_includes (toLowerCase fieldName) ''sap'' then Inr True
      else if truthy fieldData \<and> truthy (js_prop fieldData ''field'')
      then (case to_lower ''fieldData.field'' (js_prop fieldData ''field'') of
              Inl e \<Rightarrow> Inl e
            | Inr s \<Rightarrow> Inr (js_includes s ''sap''))
      else Inr False)"

text \<open>
  \<^verbatim>\<open>fieldData && fieldData.value && fieldData.value.toLowerCase() === searchTerm.toLowerCase()\<close>,
  which the search makes on \<^verbatim>\<open>sapField\<close> too; \<open>expr\<close> is the name of the variable tested.
\<close>

definition value_matches :: "string \<Rightarrow> jsval \<Rightarrow> string \<Rightarrow> js_error + bool" where
  "value_matches expr fieldData searchTerm =
     (if truthy fieldData \<and> truthy (js_prop fieldData ''value'')
      then (case to_lower (expr @ ''.value'') (js_prop fieldData ''value'') of
              Inl e \<Rightarrow> Inl e
            | Inr s \<Rightarrow> Inr (s = toLowerCase searchTerm))
      else Inr False)"

section \<open>Searching an asset: \<^verbatim>\<open>GET /api/assets/search\<close>\<close>

text \<open>\<^verbatim>\<open>assets.find(a => a.asset_tag && a.asset_tag.toLowerCase() === searchTerm.toLowerCase())\<close>\<close>

fun find_tag :: "string \<Rightarrow> jsval list \<Rightarrow> js_error + jsval option" where
  "find_tag searchTerm [] = Inr None"
| "find_tag searchTerm (a # as) =
     (case get_prop a ''asset_tag'' of
        Inl e \<Rightarrow> Inl e
      | Inr t \<Rightarrow>
          if \<not> truthy t then find_tag searchTerm as
          else (case to_lower ''a.asset_tag'' t of
                  Inl e \<Rightarrow> Inl e
                | Inr s \<Rightarrow> if s = toLowerCase searchTerm then Inr (Some a)
                          else find_tag searchTerm as))"

text \<open>The inner loop over \<^verbatim>\<open>Object.entries(asset.custom_fields)\<close>.\<close>

fun sap_scan :: "string \<Rightarrow> (string \<times> jsval) list \<Rightarrow> js_error + bool" where
  "sap_scan searchTerm [] = Inr False"
| "sap_scan searchTerm ((fieldName, fieldData) # rest) =
     (case field_is_sap fieldName fieldData of
        Inl e \<Rightarrow> Inl e
      | Inr False \<Rightarrow> sap_scan searchTerm rest
      | Inr True \<Rightarrow>
          (case value_matches ''fieldData'' fieldData searchTerm of
             Inl e \<Rightarrow> Inl e
           | Inr True \<Rightarrow> Inr True
           | Inr False \<Rightarrow> sap_scan searchTerm rest))"

text \<open>The body of the outer loop: does this asset match by a SAP custom field?\<close>

definition asset_matches_sap :: "string \<Rightarrow> jsval \<Rightarrow> js_error + bool" where
  "asset_matches_sap searchTerm asset =
     (case get_prop asset ''custom_fields'' of
        Inl e \<Rightarrow> Inl e
      | Inr custom_fields \<Rightarrow>
          if \<not> truthy custom_fields then Inr False
          else
            let sapField = or_else (js_prop custom_fields ''SAP Asset Number / ID'')
                             (js_prop custom_fields ''SAP Asset Number'')
            in case value_matches ''sapField'' sapField searchTerm of
                 Inl e \<Rightarrow> Inl e
               | Inr True \<Rightarrow> Inr True
               | Inr False \<Rightarrow> sap_scan searchTerm (entries custom_fields))"

fun find_sap :: "string \<Rightarrow> jsval list \<Rightarrow> js_error + jsval option" where
  "find_sap searchTerm [] = Inr None"
| "find_sap searchTerm (asset # rest) =
     (case asset_matches_sap searchTerm asset of
        Inl e \<Rightarrow> Inl e
      | Inr True \<Rightarrow> Inr (Some asset)
      | Inr False \<Rightarrow> find_sap searchTerm rest)"

text \<open>
  The second \<^verbatim>\<open>try\<close> block, after the search call has answered \<open>data\<close>. \<open>assets\<close>
  is \<^verbatim>\<open>rows || []\<close>; only an array has the method \<^verbatim>\<open>find\<close>.
\<close>

definition scan_assets :: "string \<Rightarrow> jsval \<Rightarrow> js_error + jsval option" where
  "scan_assets searchTerm data =
     (case get_prop data ''rows'' of
        Inl e \<Rightarrow> Inl e
      | Inr rows \<Rightarrow>
          (case or_else rows (JArr []) of
             JArr assets \<Rightarrow>
               (case find_tag searchTerm assets of
                  Inl e \<Rightarrow> Inl e
                | Inr (Some exactTagMatch) \<Rightarrow> Inr (Some exactTagMatch)
                | Inr None \<Rightarrow> find_sap searchTerm assets)
           | _ \<Rightarrow> Inl (JsError None ''assets.find is not a function'')))"

definition search_fallback :: "remote \<Rightarrow> jsval \<Rightarrow> string \<Rightarrow> world \<Rightarrow> response \<times> world" where
  "search_fallback remote apiToken searchTerm w =
     (let (searched, w1) = axios remote (GetHardwareSearch apiToken searchTerm 50) w
      in case (case searched of Inl e \<Rightarrow> Inl e | Inr data \<Rightarrow> scan_assets searchTerm data) of
           Inl e \<Rightarrow> (remote_failure ''Failed to search asset'' e, w1)
         | Inr (Some asset) \<Rightarrow> (Response 200 asset, w1)
         | Inr None \<Rightarrow>
             (Response 404
                (error_json ''Asset not found. Please check the asset tag or SAP number.''), w1))"

text \<open>
  The first \<^verbatim>\<open>try\<close> block: the lookup by tag answers when it returns data with an id; its
  failure is only logged.
\<close>

definition search_lookup :: "remote \<Rightarrow> jsval \<Rightarrow> string \<Rightarrow> world \<Rightarrow> response \<times> world" where
  "search_lookup remote apiToken searchTerm w =
     (let (tagged, w1) = axios remote (GetHardwareByTag apiToken searchTerm) w
      in case tagged of
           Inr data \<Rightarrow>
             if truthy data \<and> truthy (js_prop data ''id'') then (Response 200 data, w1)
             else search_fallback remote apiToken searchTerm w1
         | Inl e \<Rightarrow> search_fallback remote apiToken searchTerm w1)"

text \<open>
  The handler. \<open>query\<close> is \<^verbatim>\<open>req.query.query\<close>: undefined or a string; on the arrays and
  objects the query parser can make, \<^verbatim>\<open>query.trim\<close> is not a function and the error
  leaves the handler.
\<close>

definition search_assets :: "remote \<Rightarrow> jsval \<Rightarrow> jsval \<Rightarrow> world \<Rightarrow> response \<times> world" where
  "search_assets remote apiToken query w =
     (if \<not> truthy apiToken then (Response 401 (error_json ''API token required''), w)
      else if \<not> truthy query then (Response 400 (error_json ''Search query required''), w)
      else case query of
             JStr q \<Rightarrow>
               if trim q = [] then (Response 400 (error_json ''Search query required''), w)
               else search_lookup remote apiToken (trim q) w
           | _ \<Rightarrow> (Unhandled (JsError None ''query.trim is not a function''), w))"

section \<open>The asset snapshot: \<^verbatim>\<open>GET /api/snipeit/assets\<close>\<close>

subsection \<open>Fetching every page\<close>

definition limit :: nat where
  "limit = 500"

text \<open>
  The body of the \<^verbatim>\<open>while (hasMore)\<close> loop after the remote has answered \<open>data\<close>, with
  the assets gathered so far: \<^verbatim>\<open>assets\<close> is \<^verbatim>\<open>rows || []\<close>, which \<^verbatim>\<open>concat\<close> appends; the
  log line interpolates \<^verbatim>\<open>response.data.total\<close>; then the exit test
  \<^verbatim>\<open>assets.length < limit || allAssets.length >= response.data.total\<close> is made. The result
  is the error thrown, or the assets now gathered and the new \<^verbatim>\<open>hasMore\<close>.
\<close>

definition next_page ::
  "(string \<Rightarrow> int option) \<Rightarrow> jsval list \<Rightarrow> jsval \<Rightarrow> js_error + jsval list \<times> bool" where
  "next_page to_number allAssets data =
     (case get_prop data ''rows'' of
        Inl e \<Rightarrow> Inl e
      | Inr rows \<Rightarrow>
          let assets = or_else rows (JArr []);
              gathered = js_concat allAssets assets
          in if unprintable (js_prop data ''total'') then Inl primitive_error
             else case js_less to_number (js_length assets) (int limit) of
                    Inl e \<Rightarrow> Inl e
                  | Inr True \<Rightarrow> Inr (gathered, False)
                  | Inr False \<Rightarrow>
                      (case js_at_least to_number (int (length gathered))
                              (js_prop data ''total'') of
                         Inl e \<Rightarrow> Inl e
                       | Inr reached \<Rightarrow> Inr (gathered, \<not> reached)))"

text \<open>
  The loop, from the current \<open>offset\<close> and the assets gathered so far. It ends with the
  error thrown in it, or with all the assets; \<open>None\<close> is a loop that never ends.
\<close>

partial_function (option) fetch_pages ::
  "(string \<Rightarrow> int option) \<Rightarrow> remote \<Rightarrow> jsval \<Rightarrow> nat \<Rightarrow> jsval list \<Rightarrow> world
     \<Rightarrow> ((js_error + jsval list) \<times> world) option" where
  "fetch_pages to_number remote apiToken offset allAssets w =
     (case axios remote (GetHardwarePage apiToken limit offset) w of
        (Inl e, w1) \<Rightarrow> Some (Inl e, w1)
      | (Inr data, w1) \<Rightarrow>
          (case next_page to_number allAssets data of
             Inl e \<Rightarrow> Some (Inl e, w1)
           | Inr (gathered, hasMore) \<Rightarrow>
               if hasMore
               then fetch_pages to_number remote apiToken (offset + limit) gathered w1
               else Some (Inr gathered, w1)))"

declare fetch_pages.simps [code]

subsection \<open>Classifying the assets\<close>

text \<open>The helper \<^verbatim>\<open>extractDate\<close>.\<close>

definition extractDate :: "jsval \<Rightarrow> jsval" where
  "extractDate dateField =
     (if \<not> truthy dateField then JNull
      else case dateField of
             JStr s \<Rightarrow> JStr s
           | JObj kvs \<Rightarrow>
               if truthy (js_prop dateField ''datetime'') then js_prop dateField ''datetime''
               else if truthy (js_prop dateField ''formatted'') then js_prop dateField ''formatted''
               else JNull
           | JArr xs \<Rightarrow> JNull
           | _ \<Rightarrow> JNull)"

text \<open>
  The helper \<^verbatim>\<open>parseDate\<close>. \<open>native\<close> is \<^verbatim>\<open>new Date(dateStr).getTime()\<close>, the engine's
  own parsing, a parameter: the epoch milliseconds, or \<open>None\<close> for NaN. The result is the
  date's epoch milliseconds, or \<open>None\<close> for null.
\<close>

definition parseDate :: "(jsval \<Rightarrow> int option) \<Rightarrow> jsval \<Rightarrow> int option" where
  "parseDate native dateField =
     (let dateStr = extractDate dateField in
      if \<not> truthy dateStr then None else native dateStr)"

text \<open>The loop that looks for a SAP field when no field has one of the two exact names.\<close>

fun sap_first :: "(string \<times> jsval) list \<Rightarrow> js_error + jsval" where
  "sap_first [] = Inr JNull"
| "sap_first ((fieldName, fieldData) # rest) =
     (case field_is_sap fieldName fieldData of
        Inl e \<Rightarrow> Inl e
      | Inr True \<Rightarrow>
          (case get_prop fieldData ''value'' of
             Inl e \<Rightarrow> Inl e
           | Inr v \<Rightarrow> Inr (or_else v JNull))
      | Inr False \<Rightarrow> sap_first rest)"

definition sapAssetNumber :: "jsval \<Rightarrow> js_error + jsval" where
  "sapAssetNumber asset =
     (let custom_fields = js_prop asset ''custom_fields'' in
      if truthy custom_fields \<and> length (entries custom_fields) > 0
      then
        let sapField = or_else (js_prop custom_fields ''SAP Asset Number / ID'')
                         (js_prop custom_fields ''SAP Asset Number'')
        in if truthy sapField then Inr (or_else (js_prop sapField ''value'') JNull)
           else sap_first (entries custom_fields)
      else Inr JNull)"

text \<open>
  The callback of \<^verbatim>\<open>allAssets.map\<close>, for one asset. \<open>currentYearStart\<close> is January 1 of the
  current year and \<open>today\<close> the \<^verbatim>\<open>new Date()\<close> read for this asset, both in epoch
  milliseconds.
\<close>

definition processAsset :: "(jsval \<Rightarrow> int option) \<Rightarrow> int \<Rightarrow> int \<Rightarrow> jsval \<Rightarrow> js_error + jsval" where
  "processAsset native currentYearStart today asset =
     (case get_prop asset ''last_audit_date'' of
        Inl e \<Rightarrow> Inl e
      | Inr last_audit_date \<Rightarrow>
          (case sapAssetNumber asset of
             Inl e \<Rightarrow> Inl e
           | Inr sap \<Rightarrow>
               Inr (JObj
                 [(''id'', js_prop asset ''id''),
                  (''asset_tag'', js_prop asset ''asset_tag''),
                  (''name'', js_prop asset ''name''),
                  (''serial'', js_prop asset ''serial''),
                  (''model'', or_else (opt_prop (js_prop asset ''model'') ''name'') JNull),
                  (''category'', or_else (opt_prop (js_prop asset ''category'') ''name'') JNull),
                  (''location'', or_else (opt_prop (js_prop asset ''location'') ''name'') JNull),
                  (''location_id'', or_else (opt_prop (js_prop asset ''location'') ''id'') JNull),
                  (''assigned_to'', or_else (opt_prop (js_prop asset ''assigned_to'') ''name'') JNull),
                  (''status'', or_else (opt_prop (js_prop asset ''status_label'') ''name'') JNull),
                  (''sap_asset_number'', sap),
                  (''last_audit_date'', extractDate last_audit_date),
                  (''next_audit_date'', extractDate (js_prop asset ''next_audit_date'')),
                  (''never_audited'', JBool (\<not> truthy last_audit_date)),
                  (''not_audited_this_year'',
                     JBool (case parseDate native last_audit_date of
                              Some lastAuditDate \<Rightarrow> lastAuditDate < currentYearStart
                            | None \<Rightarrow> True)),
                  (''audit_overdue'',
                     JBool (case parseDate native (js_prop asset ''next_audit_date'') of
                              Some nextAuditDate \<Rightarrow> nextAuditDate < today
                            | None \<Rightarrow> False))])))"

text \<open>\<^verbatim>\<open>allAssets.map(...)\<close>, from index \<open>i\<close>; \<open>clock i\<close> is the time read for asset \<open>i\<close>.\<close>

fun processAssets ::
  "(jsval \<Rightarrow> int option) \<Rightarrow> int \<Rightarrow> (nat \<Rightarrow> int) \<Rightarrow> nat \<Rightarrow> jsval list \<Rightarrow> js_error + jsval list" where
  "processAssets native currentYearStart clock i [] = Inr []"
| "processAssets native currentYearStart clock i (asset # rest) =
     (case processAsset native currentYearStart (clock i) asset of
        Inl e \<Rightarrow> Inl e
      | Inr a \<Rightarrow>
          (case processAssets native currentYearStart clock (Suc i) rest of
             Inl e \<Rightarrow> Inl e
           | Inr as \<Rightarrow> Inr (a # as)))"

text \<open>The three filters and the object \<^verbatim>\<open>result\<close>.\<close>

definition neverAudited :: "jsval list \<Rightarrow> jsval list" where
  "neverAudited processedAssets = filter (\<lambda>a. truthy (js_prop a ''never_audited'')) processedAssets"

definition notAuditedThisYear :: "jsval list \<Rightarrow> jsval list" where
  "notAuditedThisYear processedAssets =
     filter (\<lambda>a. \<not> truthy (js_prop a ''never_audited'') \<and> truthy (js_prop a ''not_audited_this_year''))
       processedAssets"

definition auditOverdue :: "jsval list \<Rightarrow> jsval list" where
  "auditOverdue processedAssets = filter (\<lambda>a. truthy (js_prop a ''audit_overdue'')) processedAssets"

definition snapshot :: "jsval list \<Rightarrow> jsval list \<Rightarrow> jsval" where
  "snapshot allAssets processedAssets =
     JObj [(''total'', JNum (int (length allAssets))),
           (''never_audited'', JArr (neverAudited processedAssets)),
           (''not_audited_this_year'', JArr (notAuditedThisYear processedAssets)),
           (''audit_overdue'', JArr (auditOverdue processedAssets)),
           (''all_assets'', JArr processedAssets)]"

subsection \<open>The cache and the handler\<close>

definition ttl :: int where
  "ttl = 10 * 60 * 1000"

text \<open>
  \<^verbatim>\<open>assetCache.data && assetCache.timestamp && (now - assetCache.timestamp) < assetCache.ttl\<close>
\<close>

definition cache_fresh :: "int \<Rightarrow> world \<Rightarrow> bool" where
  "cache_fresh now w =
     (truthy (assetCache_data w)
      \<and> (case assetCache_timestamp w of
           None \<Rightarrow> False
         | Some timestamp \<Rightarrow> timestamp \<noteq> 0 \<and> now - timestamp < ttl))"

text \<open>
  \<^verbatim>\<open>{...data, cached: c, cache_age: a}\<close>: the properties of \<open>data\<close>, then the two
  others, each set in place if \<open>data\<close> has the key.
\<close>

definition with_cache_info :: "jsval \<Rightarrow> bool \<Rightarrow> int \<Rightarrow> jsval" where
  "with_cache_info data c a =
     JObj (AList.update ''cache_age'' (JNum a)
             (AList.update ''cached'' (JBool c) (entries data)))"

text \<open>\<^verbatim>\<open>Math.round(ms / 1000)\<close> on an integer \<open>ms\<close>: halves round up.\<close>

definition round_seconds :: "int \<Rightarrow> int" where
  "round_seconds ms = (ms + 500) div 1000"

text \<open>
  The handler. \<open>now\<close> is \<^verbatim>\<open>Date.now()\<close>, \<open>refresh\<close> is \<^verbatim>\<open>req.query.refresh\<close>. The result
  is \<open>None\<close> when the paging loop never ends.
\<close>

definition get_assets ::
  "string \<Rightarrow> (string \<Rightarrow> int option) \<Rightarrow> remote \<Rightarrow> (jsval \<Rightarrow> int option) \<Rightarrow> int \<Rightarrow> int
     \<Rightarrow> (nat \<Rightarrow> int) \<Rightarrow> jsval \<Rightarrow> jsval \<Rightarrow> jsval \<Rightarrow> world \<Rightarrow> (response \<times> world) option" where
  "get_assets ADMIN_PASSWORD to_number remote native now currentYearStart clock adminPassword
       apiToken refresh w =
     (let forceRefresh = strict_eq refresh (JStr ''true'') in
      if \<not> strict_eq adminPassword (JStr ADMIN_PASSWORD)
      then Some (Response 401 (error_json ''Admin password required''), w)
      else if \<not> truthy apiToken
      then Some (Response 401 (error_json ''Snipe-IT API token required''), w)
      else if \<not> forceRefresh \<and> cache_fresh now w
      then Some (Response 200
                   (with_cache_info (assetCache_data w) True
                      (round_seconds (now - the (assetCache_timestamp w)))),
                 w)
      else
        case fetch_pages to_number remote apiToken 0 [] w of
          None \<Rightarrow> None
        | Some (Inl e, w1) \<Rightarrow> Some (remote_failure ''Failed to fetch assets from Snipe-IT'' e, w1)
        | Some (Inr allAssets, w1) \<Rightarrow>
            (case processAssets native currentYearStart clock 0 allAssets of
               Inl e \<Rightarrow> Some (remote_failure ''Failed to fetch assets from Snipe-IT'' e, w1)
             | Inr processedAssets \<Rightarrow>
                 Some (Response 200
                         (with_cache_info (snapshot allAssets processedAssets) False 0),
                       w1\<lparr>assetCache_data := snapshot allAssets processedAssets,
                          assetCache_timestamp := Some now\<rparr>)))"

section \<open>Vocabulary of the properties\<close>

text \<open>
  What a later request may do to a stored row: the row keeps its id and the two location
  ids its status was computed from, and its status stays as it is or becomes
  \<^verbatim>\<open>'resolved'\<close>.
\<close>

definition status_kept :: "audit \<Rightarrow> audit \<Rightarrow> bool" where
  "status_kept r r' =
     (audit_id r' = audit_id r \<and> expected_location_id r' = expected_location_id r
      \<and> actual_location_id r' = actual_location_id r
      \<and> (status r' = status r \<or> status r' = JStr ''resolved''))"

text \<open>The two kinds of entry a batch resolve itemizes, and the ids of a list of entries.\<close>

definition is_success :: "jsval \<Rightarrow> bool" where
  "is_success item = (item = success_item (js_prop item ''id''))"

definition is_failure :: "jsval \<Rightarrow> bool" where
  "is_failure item =
     (js_prop item ''error'' \<noteq> JUndefined \<and> js_prop item ''success'' = JUndefined)"

definition item_ids :: "jsval \<Rightarrow> jsval list" where
  "item_ids items = map (\<lambda>item. js_prop item ''id'') (elements items)"

text \<open>
  A submitted body whose ten fields are scalars: each is absent, null, a boolean, a number
  or a string, none an array or an object.
\<close>

definition is_scalar :: "jsval \<Rightarrow> bool" where
  "is_scalar v = (case v of JArr xs \<Rightarrow> False | JObj kvs \<Rightarrow> False | _ \<Rightarrow> True)"

definition scalar_fields :: "jsval \<Rightarrow> bool" where
  "scalar_fields body =
     list_all (\<lambda>k. is_scalar (js_prop body k))
       [''asset_id'', ''asset_tag'', ''asset_name'', ''sap_asset_number'',
        ''expected_location_id'', ''expected_location_name'', ''actual_location_id'',
        ''actual_location_name'', ''notes'', ''user_name'']"

text \<open>
  Such a body can be stored when none of its fields is a boolean (\<^verbatim>\<open>sap_asset_number\<close>
  may be false, which \<^verbatim>\<open>|| null\<close> replaces) and the four fields whose columns are
  \<^verbatim>\<open>NOT NULL\<close> are neither absent nor null.
\<close>

definition is_boolean :: "jsval \<Rightarrow> bool" where
  "is_boolean v = (case v of JBool b \<Rightarrow> True | _ \<Rightarrow> False)"

definition storable :: "jsval \<Rightarrow> bool" where
  "storable body =
     (list_all (\<lambda>k. \<not> is_boolean (js_prop body k))
        [''asset_id'', ''asset_tag'', ''asset_name'', ''expected_location_id'',
         ''expected_location_name'', ''actual_location_id'', ''actual_location_name'',
         ''notes'', ''user_name'']
      \<and> js_prop body ''sap_asset_number'' \<noteq> JBool True
      \<and> list_all (\<lambda>k. js_prop body k \<noteq> JUndefined \<and> js_prop body k \<noteq> JNull)
          [''asset_id'', ''asset_tag'', ''actual_location_id'', ''actual_location_name''])"

text \<open>
  The row to expect of such a body: every column holds the field of its name, NULL for an
  absent one; \<open>computed\<close> is the status and \<open>flag\<close> the value of \<^verbatim>\<open>snipeit_audit_posted\<close>.
\<close>

definition column :: "jsval \<Rightarrow> jsval" where
  "column v = (if v = JUndefined then JNull else v)"

definition stored_row :: "jsval \<Rightarrow> jsval \<Rightarrow> int \<Rightarrow> string \<Rightarrow> int \<Rightarrow> audit" where
  "stored_row body created i computed flag =
     \<lparr>audit_id = i,
      asset_id = column (js_prop body ''asset_id''),
      asset_tag = column (js_prop body ''asset_tag''),
      asset_name = column (js_prop body ''asset_name''),
      sap_asset_number = or_else (js_prop body ''sap_asset_number'') JNull,
      expected_location_id = column (js_prop body ''expected_location_id''),
      expected_location_name = column (js_prop body ''expected_location_name''),
      actual_location_id = column (js_prop body ''actual_location_id''),
      actual_location_name = column (js_prop body ''actual_location_name''),
      status = JStr computed,
      audit_notes = column (js_prop body ''notes''),
      user_name = column (js_prop body ''user_name''),
      snipeit_audit_posted = JNum flag,
      created_at = created, resolved_at = JNull, resolved_by = JNull\<rparr>"

section \<open>Sample data\<close>

definition empty_world :: world where
  "empty_world = \<lparr>audits = [], sqlite_sequence = 0, assetCache_data = JNull,
     assetCache_timestamp = None, remote_log = []\<rparr>"

definition remote_down :: remote where
  "remote_down log c = Inl (JsError None ''Network Error'')"

definition remote_up :: remote where
  "remote_up log c = Inr (JObj [(''status'', JStr ''success'')])"

definition laptop_audit :: jsval where
  "laptop_audit = JObj [(''asset_id'', JNum 7), (''asset_tag'', JStr ''LAPTOP-001''),
     (''expected_location_id'', JNull), (''actual_location_id'', JNum 2),
     (''actual_location_name'', JStr ''Lab'')]"

text \<open>An audit found where it was expected.\<close>

definition lab_audit :: jsval where
  "lab_audit = JObj [(''asset_id'', JNum 8), (''asset_tag'', JStr ''LAPTOP-002''),
     (''expected_location_id'', JNum 2), (''expected_location_name'', JStr ''Lab''),
     (''actual_location_id'', JNum 2), (''actual_location_name'', JStr ''Lab''),
     (''user_name'', JStr ''kim'')]"

text \<open>
  The same audit with a note, an empty array as \<^verbatim>\<open>asset_name\<close> and an array of two
  strings as \<^verbatim>\<open>user_name\<close>.
\<close>

definition shifted_audit :: jsval where
  "shifted_audit = JObj [(''asset_id'', JNum 8), (''asset_tag'', JStr ''LAPTOP-002''),
     (''asset_name'', JArr []),
     (''expected_location_id'', JNum 2), (''expected_location_name'', JStr ''Lab''),
     (''actual_location_id'', JNum 2), (''actual_location_name'', JStr ''Lab''),
     (''notes'', JStr ''seen''), (''user_name'', JArr [JStr ''a'', JStr ''b''])]"

definition mismatch_row :: "int \<Rightarrow> int \<Rightarrow> audit" where
  "mismatch_row i a = \<lparr>audit_id = i, asset_id = JNum a, asset_tag = JStr ''TAG'',
     asset_name = JNull, sap_asset_number = JNull, expected_location_id = JNum 1,
     expected_location_name = JNull, actual_location_id = JNum 2,
     actual_location_name = JStr ''Lab'', status = JStr ''mismatch'', audit_notes = JNull,
     user_name = JNull, snipeit_audit_posted = JNum 1,
     created_at = JStr ''2024-01-01 00:00:00'', resolved_at = JNull, resolved_by = JNull\<rparr>"

definition three_mismatches :: world where
  "three_mismatches =
     empty_world\<lparr>audits := [mismatch_row 1 11, mismatch_row 2 12, mismatch_row 3 13],
       sqlite_sequence := 3\<rparr>"

text \<open>A remote that refuses the patch of asset 12 and accepts every other call.\<close>

definition remote_rejects_12 :: remote where
  "remote_rejects_12 log c =
     (case c of
        PatchHardware t a l \<Rightarrow>
          if a = JNum 12
          then Inl (JsError (Some (500, JNull)) ''Request failed with status code 500'')
          else Inr JNull
      | _ \<Rightarrow> Inr JNull)"

definition small_ids :: "string \<Rightarrow> int option" where
  "small_ids s = (if s = ''1'' then Some 1 else if s = ''2'' then Some 2 else None)"

definition noon :: "nat \<Rightarrow> string" where
  "noon i = ''2024-06-01T12:00:00.000Z''"

definition ids_123 :: jsval where
  "ids_123 = JObj [(''audit_ids'', JArr [JNum 1, JNum 2, JNum 3])]"

text \<open>
  A batch of two ids, the first an array holding an object with a property \<^verbatim>\<open>toString\<close>.
\<close>

definition ids_odd_2 :: jsval where
  "ids_odd_2 = JObj [(''audit_ids'', JArr [JArr [JObj [(''toString'', JNum 1)]], JNum 2])]"

definition resolve_1_by :: "string \<Rightarrow> jsval" where
  "resolve_1_by name = JObj [(''audit_ids'', JArr [JNum 1]), (''resolved_by'', JStr name)]"

text \<open>An engine that parses no date, and the clock of a day in June 2024.\<close>

definition never_parses :: "jsval \<Rightarrow> int option" where
  "never_parses v = None"

definition year_2024 :: int where
  "year_2024 = 1704067200000"

definition june_2024 :: "nat \<Rightarrow> int" where
  "june_2024 i = 1717243200000"

text \<open>An asset without \<^verbatim>\<open>last_audit_date\<close>, and what the classifier makes of it.\<close>

definition bare_asset :: jsval where
  "bare_asset = JObj [(''id'', JNum 6)]"

definition bare_processed :: jsval where
  "bare_processed =
     JObj [(''id'', JNum 6), (''asset_tag'', JUndefined), (''name'', JUndefined),
           (''serial'', JUndefined), (''model'', JNull), (''category'', JNull),
           (''location'', JNull), (''location_id'', JNull), (''assigned_to'', JNull),
           (''status'', JNull), (''sap_asset_number'', JNull), (''last_audit_date'', JNull),
           (''next_audit_date'', JNull), (''never_audited'', JBool True),
           (''not_audited_this_year'', JBool True), (''audit_overdue'', JBool False)]"

text \<open>An asset whose \<^verbatim>\<open>last_audit_date\<close> is an object with neither field, and the same.\<close>

definition blank_date_asset :: jsval where
  "blank_date_asset = JObj [(''id'', JNum 5), (''last_audit_date'', JObj [])]"

definition blank_date_processed :: jsval where
  "blank_date_processed =
     JObj [(''id'', JNum 5), (''asset_tag'', JUndefined), (''name'', JUndefined),
           (''serial'', JUndefined), (''model'', JNull), (''category'', JNull),
           (''location'', JNull), (''location_id'', JNull), (''assigned_to'', JNull),
           (''status'', JNull), (''sap_asset_number'', JNull), (''last_audit_date'', JNull),
           (''next_audit_date'', JNull), (''never_audited'', JBool False),
           (''not_audited_this_year'', JBool True), (''audit_overdue'', JBool False)]"

text \<open>
  Three remotes: one whose every page is full and reports no total; one with 501 assets
  on two pages; one with a single asset.
\<close>

definition full_page :: jsval where
  "full_page = JObj [(''rows'', JArr (replicate 500 (JObj [])))]"

definition remote_endless :: remote where
  "remote_endless log c = Inr full_page"

definition remote_two_pages :: remote where
  "remote_two_pages log c =
     (case c of
        GetHardwarePage t l offset \<Rightarrow>
          if offset = 0
          then Inr (JObj [(''total'', JNum 501), (''rows'', JArr (replicate 500 (JObj [])))])
          else Inr (JObj [(''total'', JNum 501), (''rows'', JArr [JObj [(''id'', JNum 501)]])])
      | _ \<Rightarrow> Inl (JsError None ''Network Error''))"

definition remote_one_asset :: remote where
  "remote_one_asset log c = Inr (JObj [(''total'', JNum 1), (''rows'', JArr [bare_asset])])"

text \<open>A remote whose every page has an object as \<^verbatim>\<open>rows\<close> and reports the total 3.\<close>

definition remote_object_rows :: remote where
  "remote_object_rows log c = Inr (JObj [(''rows'', JObj [(''a'', JNum 1)]), (''total'', JNum 3)])"

text \<open>A world whose cache slot was filled at time 1000.\<close>

definition cached_world :: world where
  "cached_world = empty_world\<lparr>assetCache_data := snapshot [bare_asset] [bare_processed],
     assetCache_timestamp := Some 1000\<rparr>"

section \<open>Facts about the store\<close>

lemma bind_value_scalar [simp]:
  "bind_value (JStr s) = Inr (JStr s)" "bind_value (JNum n) = Inr (JNum n)"
  "bind_value JNull = Inr JNull" "bind_value JUndefined = Inr JNull"
  by (simp_all add: bind_value_def)

lemma strict_eq_JStr [simp]: "strict_eq v (JStr s) = (v = JStr s)"
  by (cases v) auto

lemma strict_eq_one_null: "(x = JNull) \<noteq> (y = JNull) \<Longrightarrow> \<not> strict_eq x y"
  by (cases x; cases y) auto

lemma bit_length_le: "n < 2 ^ k \<Longrightarrow> bit_length n \<le> k"
proof (induction k arbitrary: n)
  case 0
  then show ?case by (simp add: bit_length.simps)
next
  case (Suc k)
  show ?case
  proof (cases "n = 0")
    case True
    then show ?thesis by (simp add: bit_length.simps)
  next
    case False
    from Suc.prems have "n div 2 < 2 ^ k" by simp
    from Suc.IH[OF this] False show ?thesis by (subst bit_length.simps) simp
  qed
qed

lemma largest_rowid_log [simp]: "largest_rowid (w\<lparr>remote_log := l\<rparr>) = largest_rowid w"
  by (simp add: largest_rowid_def)

text \<open>An integer of at most 53 bits is a JavaScript number as it is.\<close>

lemma js_double_exact: "\<bar>i\<bar> < 2 ^ 53 \<Longrightarrow> js_double i = i"
proof -
  assume "\<bar>i\<bar> < 2 ^ 53"
  then have "nat \<bar>i\<bar> < 2 ^ 53" by (simp add: nat_less_iff)
  then have "bit_length (nat \<bar>i\<bar>) - 53 = 0" using bit_length_le by simp
  then show ?thesis by (simp add: js_double_def Let_def sgn_mult_abs)
qed

lemma bind_array_scalars:
  "list_all is_scalar vs \<Longrightarrow> length bound + length vs \<le> arity \<Longrightarrow>
   bind_array arity bound vs =
     (if list_all (\<lambda>v. \<not> is_boolean v) vs then Inr (bound @ map column vs)
      else Inl (JsError None
             ''SQLite3 can only bind numbers, strings, bigints, buffers, and null''))"
  by (induction vs arbitrary: bound)
     (auto simp: is_scalar_def is_boolean_def bind_next_def bind_value_def column_def
        split: jsval.splits)

lemma bind_arguments_scalars:
  "list_all is_scalar args \<Longrightarrow> length bound + length args \<le> arity \<Longrightarrow>
   bind_arguments arity named bound args =
     (if list_all (\<lambda>v. \<not> is_boolean v) args then Inr (named, bound @ map column args)
      else Inl (JsError None
             ''SQLite3 can only bind numbers, strings, bigints, buffers, and null''))"
  by (induction args arbitrary: bound)
     (auto simp: is_scalar_def is_boolean_def bind_next_def bind_value_def column_def
        split: jsval.splits)

lemma bind_parameters_scalars:
  "list_all is_scalar args \<Longrightarrow> length args = arity \<Longrightarrow>
   bind_parameters arity args =
     (if list_all (\<lambda>v. \<not> is_boolean v) args then Inr (map column args)
      else Inl (JsError None
             ''SQLite3 can only bind numbers, strings, bigints, buffers, and null''))"
  by (simp add: bind_parameters_def bind_arguments_scalars)

lemma bind_parameters_text [simp]:
  "bind_parameters 1 [JStr s] = Inr [JStr s]" "bind_parameters (Suc 0) [JStr s] = Inr [JStr s]"
  by (simp_all add: bind_parameters_def bind_next_def)

lemma insert_audit_scalars:
  assumes "scalar_fields body"
  shows "insert_audit created (audit_args body p) w =
     (if storable body
      then if largest_rowid w < 9223372036854775807
           then Inr (js_double (largest_rowid w + 1),
                  w\<lparr>audits := audits w
                       @ [stored_row body created (largest_rowid w + 1) (audit_status body) p],
                    sqlite_sequence := largest_rowid w + 1\<rparr>)
           else Inl (JsError None ''database or disk is full'')
      else if list_all (\<lambda>v. \<not> is_boolean v) (audit_args body p)
           then Inl (JsError None ''NOT NULL constraint failed'')
           else Inl (JsError None
             ''SQLite3 can only bind numbers, strings, bigints, buffers, and null''))"
proof -
  from assms have sc: "list_all is_scalar (audit_args body p)"
    by (auto simp: scalar_fields_def audit_args_def or_else_def is_scalar_def)
  have len: "length (audit_args body p) = 12" by (simp add: audit_args_def)
  note b = bind_parameters_scalars[OF sc len]
  show ?thesis
    unfolding insert_audit_def b
    by (auto simp: audit_args_def storable_def new_audit_def not_null_ok_def stored_row_def
          column_def or_else_def is_boolean_def Let_def split: jsval.splits)
qed







lemma scalar_printable: "is_scalar v \<Longrightarrow> \<not> unprintable v"
  by (cases v) (simp_all add: is_scalar_def)

lemma status_kept_refl: "list_all2 status_kept rs rs"
  by (simp add: list_all2_same status_kept_def)

lemma status_kept_trans:
  assumes "list_all2 status_kept xs ys" and "list_all2 status_kept ys zs"
  shows "list_all2 status_kept xs zs"
proof (rule list_all2_trans[OF _ assms])
  fix a b c
  assume "status_kept a b" and "status_kept b c"
  then show "status_kept a c" by (auto simp: status_kept_def)
qed

lemma update_resolved_rows:
  assumes "update_resolved numeric now by auditId w = Inr w'"
  shows "list_all2 status_kept (audits w) (audits w')"
  using assms unfolding update_resolved_def
  by (auto simp: list_all2_map2 list_all2_same status_kept_def
        split: sum.splits if_splits)

lemma resolve_one_rows:
  assumes "resolve_one remote numeric now apiToken resolver auditId w = (out, w')"
  shows "list_all2 status_kept (audits w) (audits w')"
  using assms unfolding resolve_one_def axios_def
  by (auto simp: status_kept_refl Let_def
        split: sum.splits option.splits if_splits prod.splits dest!: update_resolved_rows)

lemma resolve_loop_rows:
  "resolve_loop remote numeric clock apiToken resolver i ids (results, errors, w) = (out, w')
   \<Longrightarrow> list_all2 status_kept (audits w) (audits w')"
proof (induction ids arbitrary: i results errors w)
  case Nil
  then show ?case by (simp add: status_kept_refl)
next
  case (Cons auditId rest)
  obtain t w1 where
    one: "resolve_one remote numeric (clock i) apiToken resolver auditId w = (t, w1)"
    by (cases "resolve_one remote numeric (clock i) apiToken resolver auditId w")
  have step: "list_all2 status_kept (audits w) (audits w1)"
    using one by (rule resolve_one_rows)
  have "list_all2 status_kept (audits w1) (audits w')"
    using Cons.prems one Cons.IH by (cases t) (auto simp: status_kept_refl)
  with step show ?case by (rule status_kept_trans)
qed

lemma resolve_audits_rows:
  assumes "resolve_audits ADMIN_PASSWORD remote numeric clock adminPassword apiToken body w
             = (res, w')"
  shows "list_all2 status_kept (audits w) (audits w')"
  using assms unfolding resolve_audits_def
  by (auto simp: Let_def status_kept_refl split: if_splits prod.splits sum.splits
        dest: resolve_loop_rows)

lemma delete_audit_rows:
  assumes "delete_audit ADMIN_PASSWORD numeric adminPassword id_param w = (res, w')"
  shows "audits w' = filter (\<lambda>r. r \<in> set (audits w')) (audits w)"
  using assms unfolding delete_audit_def delete_where_id_def
  by (auto split: if_splits intro!: filter_cong[OF refl, symmetric]
        simp: filter_id_conv[THEN iffD2])

text \<open>What one turn of the resolve loop pushes, and when it throws.\<close>

lemma resolve_one_item:
  assumes "resolve_one remote numeric now apiToken resolver auditId w = (out, w')"
  shows "(case out of
            Resolved item \<Rightarrow> item = success_item auditId
          | Failed item \<Rightarrow> js_prop item ''id'' = auditId \<and> is_failure item
          | Thrown e \<Rightarrow> e = primitive_error \<and> unprintable auditId)"
  using assms unfolding resolve_one_def axios_def catch_block_def
  by (auto simp: Let_def error_item_def caught_item_def or_else_def is_failure_def
      split: sum.splits option.splits if_splits prod.splits)

lemma resolve_loop_items:
  "resolve_loop remote numeric clock apiToken resolver i ids (results, errors, w)
     = (Inr (results', errors'), w')
   \<Longrightarrow> list_all is_success results \<Longrightarrow> list_all is_failure errors
   \<Longrightarrow> list_all is_success results' \<and> list_all is_failure errors'
       \<and> mset (map (\<lambda>item. js_prop item ''id'') (results' @ errors'))
           = mset (map (\<lambda>item. js_prop item ''id'') (results @ errors)) + mset ids"
proof (induction ids arbitrary: i results errors w)
  case Nil
  then show ?case by simp
next
  case (Cons auditId rest)
  obtain out w1 where
    one: "resolve_one remote numeric (clock i) apiToken resolver auditId w = (out, w1)"
    by (cases "resolve_one remote numeric (clock i) apiToken resolver auditId w")
  note item = resolve_one_item[OF one]
  show ?case
  proof (cases out)
    case (Failed failed)
    with item have e: "js_prop failed ''id'' = auditId" "is_failure failed"
      by simp_all
    from Cons.prems(1) one Failed
    have "resolve_loop remote numeric clock apiToken resolver (Suc i) rest
            (results, errors @ [failed], w1) = (Inr (results', errors'), w')"
      by simp
    from Cons.IH[OF this] Cons.prems(2,3) e show ?thesis by simp
  next
    case (Resolved passed)
    with item have s: "js_prop passed ''id'' = auditId" "is_success passed"
      by (simp_all add: is_success_def success_item_def)
    from Cons.prems(1) one Resolved
    have "resolve_loop remote numeric clock apiToken resolver (Suc i) rest
            (results @ [passed], errors, w1) = (Inr (results', errors'), w')"
      by simp
    from Cons.IH[OF this] Cons.prems(2,3) s show ?thesis by simp
  next
    case (Thrown e)
    with Cons.prems(1) one show ?thesis by simp
  qed
qed

text \<open>The loop throws only on an id that cannot be converted to a string.\<close>

lemma resolve_loop_thrown:
  "resolve_loop remote numeric clock apiToken resolver i ids (results, errors, w) = (Inl e, w')
   \<Longrightarrow> e = primitive_error \<and> (\<exists>auditId \<in> set ids. unprintable auditId)"
proof (induction ids arbitrary: i results errors w)
  case Nil
  then show ?case by simp
next
  case (Cons auditId rest)
  obtain out w1 where
    one: "resolve_one remote numeric (clock i) apiToken resolver auditId w = (out, w1)"
    by (cases "resolve_one remote numeric (clock i) apiToken resolver auditId w")
  note item = resolve_one_item[OF one]
  show ?case
  proof (cases out)
    case (Failed failed)
    with Cons.prems one Cons.IH show ?thesis by auto
  next
    case (Resolved passed)
    with Cons.prems one Cons.IH show ?thesis by auto
  next
    case (Thrown x)
    with Cons.prems one item show ?thesis by auto
  qed
qed

text \<open>
  A batch whose ids can all be converted to strings is answered 200 with every id
  itemized, whatever happens to the single ids.
\<close>

lemma resolve_audits_itemizes_printable_ids:
  assumes "adminPassword = JStr ADMIN_PASSWORD" and "truthy apiToken"
    and "js_prop body ''audit_ids'' = JArr ids" and "ids \<noteq> []"
    and "list_all (\<lambda>auditId. \<not> unprintable auditId) ids"
    and "resolve_audits ADMIN_PASSWORD remote numeric clock adminPassword apiToken body w
           = (res, w')"
  shows "status_code res = 200
     \<and> list_all is_success (elements (js_prop (json res) ''results''))
     \<and> list_all is_failure (elements (js_prop (json res) ''errors''))
     \<and> mset (item_ids (js_prop (json res) ''results'') @ item_ids (js_prop (json res) ''errors''))
         = mset ids
     \<and> js_prop (json res) ''resolved''
         = JNum (int (length (elements (js_prop (json res) ''results''))))
     \<and> js_prop (json res) ''failed''
         = JNum (int (length (elements (js_prop (json res) ''errors''))))
     \<and> js_prop (json res) ''success''
         = JBool (elements (js_prop (json res) ''errors'') = [])"
proof -
  obtain out w1 where
    loop: "resolve_loop remote numeric clock apiToken (js_prop body ''resolved_by'') 0 ids
             ([], [], w) = (out, w1)"
    by (cases "resolve_loop remote numeric clock apiToken (js_prop body ''resolved_by'') 0 ids
             ([], [], w)") auto
  show ?thesis
  proof (cases out)
    case (Inl e)
    from resolve_loop_thrown[OF loop[unfolded Inl]] assms(5) show ?thesis
      by (auto simp: list_all_iff)
  next
    case (Inr lists)
    obtain results errors where lists: "lists = (results, errors)" by (cases lists)
    from resolve_loop_items[OF loop[unfolded Inr lists]]
    have items: "list_all is_success results" "list_all is_failure errors"
      "mset (map (\<lambda>item. js_prop item ''id'') (results @ errors)) = mset ids"
      by simp_all
    from assms loop Inr lists have "res = Response 200
         (JObj [(''success'', JBool (length errors = 0)),
                (''resolved'', JNum (int (length results))),
                (''failed'', JNum (int (length errors))),
                (''results'', JArr results), (''errors'', JArr errors)])"
      by (simp add: resolve_audits_def is_array_def)
    with items show ?thesis by (simp add: item_ids_def)
  qed
qed

lemma filter_distinct_key:
  "distinct (map f xs) \<Longrightarrow> length xs \<le> Suc (length (filter (\<lambda>r. k \<noteq> Some (f r)) xs))"
proof (induction xs)
  case Nil
  then show ?case by simp
next
  case (Cons x xs)
  show ?case
  proof (cases "k = Some (f x)")
    case True
    with Cons.prems have "filter (\<lambda>r. k \<noteq> Some (f r)) xs = xs"
      by (auto simp: filter_id_conv)
    with True show ?thesis by simp
  next
    case False
    with Cons show ?thesis by simp
  qed
qed

section \<open>Facts about the snapshot\<close>

lemma processAsset_flags:
  assumes "processAsset native currentYearStart today asset = Inr p"
  shows "js_prop p ''never_audited'' = JBool (\<not> truthy (js_prop asset ''last_audit_date''))"
    and "js_prop p ''not_audited_this_year''
           = JBool (case parseDate native (js_prop asset ''last_audit_date'') of
                      Some lastAuditDate \<Rightarrow> lastAuditDate < currentYearStart
                    | None \<Rightarrow> True)"
    and "js_prop p ''last_audit_date'' = extractDate (js_prop asset ''last_audit_date'')"
  using assms unfolding processAsset_def get_prop_def
  by (auto split: sum.splits if_splits)

lemma processAssets_nth:
  "processAssets native currentYearStart clock i assets = Inr processed
   \<Longrightarrow> length processed = length assets
       \<and> (\<forall>k < length assets.
             processAsset native currentYearStart (clock (i + k)) (assets ! k) = Inr (processed ! k))"
proof (induction assets arbitrary: i processed)
  case Nil
  then show ?case by simp
next
  case (Cons asset rest)
  from Cons.prems obtain p ps where
    p: "processAsset native currentYearStart (clock i) asset = Inr p"
    and ps: "processAssets native currentYearStart clock (Suc i) rest = Inr ps"
    and eq: "processed = p # ps"
    by (auto split: sum.splits)
  from Cons.IH[OF ps] p eq show ?case
    by (auto simp: nth_Cons split: nat.splits)
qed

lemma extractDate_falsy: "\<not> truthy d \<Longrightarrow> extractDate d = JNull"
  by (simp add: extractDate_def)

text \<open>One page: what it does when its rows are an array and its total a number.\<close>

lemma next_page_array:
  assumes "js_prop data ''rows'' = JArr xs" and "js_prop data ''total'' = JNum k"
  shows "next_page to_number allAssets data
     = Inr (allAssets @ xs, \<not> (length xs < 500 \<or> k \<le> int (length allAssets + length xs)))"
proof -
  from assms(1) have "data \<noteq> JUndefined" "data \<noteq> JNull" by auto
  with assms show ?thesis
    by (auto simp: next_page_def get_prop_def or_else_def js_concat_def js_length_def
          js_less_def js_at_least_def js_number_def limit_def Let_def split: bool.splits)
qed

text \<open>A page after which the loop goes on has added an asset without reaching its total.\<close>

lemma next_page_more:
  assumes "next_page to_number allAssets data = Inr (gathered, True)"
    and "js_prop data ''total'' = JNum k"
  shows "length allAssets < length gathered \<and> int (length gathered) < k"
proof -
  from assms(1) obtain rows where rows: "get_prop data ''rows'' = Inr rows"
    by (auto simp: next_page_def split: sum.splits)
  let ?assets = "or_else rows (JArr [])"
  from assms rows
  have less: "js_less to_number (js_length ?assets) (int limit) = Inr False"
    and reach: "js_at_least to_number (int (length gathered)) (JNum k) = Inr False"
    and g: "gathered = js_concat allAssets ?assets"
    by (auto simp: next_page_def Let_def split: sum.splits if_splits bool.splits)
  from reach have "int (length gathered) < k"
    by (auto simp: js_at_least_def js_number_def split: if_splits)
  moreover from less g have "length allAssets < length gathered"
    by (cases ?assets)
       (auto simp: js_concat_def js_length_def js_less_def js_number_def limit_def
          split: if_splits sum.splits option.splits)
  ultimately show ?thesis by simp
qed

lemmas fetch_pages_induct = fetch_pages.raw_induct[rotated 1, consumes 1, case_names page]

lemma fetch_pages_frame:
  assumes "fetch_pages to_number remote apiToken offset allAssets w = Some y"
  shows "audits (snd y) = audits w \<and> sqlite_sequence (snd y) = sqlite_sequence w
     \<and> assetCache_data (snd y) = assetCache_data w
     \<and> assetCache_timestamp (snd y) = assetCache_timestamp w
     \<and> (\<exists>later. remote_log (snd y)
           = remote_log w @ GetHardwarePage apiToken limit offset # later)"
  using assms
proof (induction rule: fetch_pages_induct)
  case (page f to_number remote apiToken offset allAssets w y)
  let ?w1 = "w\<lparr>remote_log := remote_log w @ [GetHardwarePage apiToken limit offset]\<rparr>"
  show ?case
  proof (cases "remote (remote_log w) (GetHardwarePage apiToken limit offset)")
    case (Inl e)
    with page(2) show ?thesis by (auto simp: axios_def)
  next
    case (Inr data)
    show ?thesis
    proof (cases "next_page to_number allAssets data")
      case (Inl e)
      with Inr page(2) show ?thesis by (auto simp: axios_def)
    next
      case step: (Inr p)
      obtain gathered hasMore where p: "p = (gathered, hasMore)" by (cases p)
      show ?thesis
      proof (cases hasMore)
        case False
        with Inr step p page(2) show ?thesis by (auto simp: axios_def)
      next
        case True
        with Inr step p page(2)
        have "f to_number remote apiToken (offset + limit) gathered ?w1 = Some y"
          by (auto simp: axios_def)
        from page(1)[OF this] show ?thesis by auto
      qed
    qed
  qed
qed

lemma next_page_endless:
  "next_page to_number allAssets full_page = Inr (allAssets @ replicate 500 (JObj []), True)"
  by (simp add: next_page_def get_prop_def full_page_def or_else_def js_concat_def
        js_length_def js_less_def js_at_least_def js_number_def limit_def Let_def)

lemma fetch_pages_not_endless:
  assumes "fetch_pages to_number remote apiToken offset allAssets w = Some y"
  shows "remote \<noteq> remote_endless"
  using assms
proof (induction rule: fetch_pages_induct)
  case (page f to_number remote apiToken offset allAssets w y)
  let ?w1 = "w\<lparr>remote_log := remote_log w @ [GetHardwarePage apiToken limit offset]\<rparr>"
  show ?case
  proof
    assume r: "remote = remote_endless"
    from page(2) r
    have "f to_number remote apiToken (offset + limit) (allAssets @ replicate 500 (JObj [])) ?w1
            = Some y"
      by (simp add: axios_def remote_endless_def next_page_endless)
    from page(1)[OF this] r show False by simp
  qed
qed

lemma fetch_pages_endless:
  "fetch_pages to_number remote_endless apiToken offset allAssets w = None"
  using fetch_pages_not_endless[of to_number remote_endless apiToken offset allAssets w]
  by (cases "fetch_pages to_number remote_endless apiToken offset allAssets w") auto

lemma fetch_pages_bounded:
  assumes bounded: "\<And>log offset data.
      remote log (GetHardwarePage apiToken limit offset) = Inr data
      \<Longrightarrow> \<exists>k. js_prop data ''total'' = JNum k \<and> k \<le> T"
  shows "\<exists>y. fetch_pages to_number remote apiToken offset allAssets w = Some y"
proof (induction "nat (T - int (length allAssets))" arbitrary: offset allAssets w
        rule: less_induct)
  case less
  let ?w1 = "w\<lparr>remote_log := remote_log w @ [GetHardwarePage apiToken limit offset]\<rparr>"
  show ?case
  proof (cases "remote (remote_log w) (GetHardwarePage apiToken limit offset)")
    case (Inl e)
    then show ?thesis by (subst fetch_pages.simps) (simp add: axios_def)
  next
    case (Inr data)
    from bounded[OF Inr] obtain k where k: "js_prop data ''total'' = JNum k" "k \<le> T"
      by auto
    show ?thesis
    proof (cases "next_page to_number allAssets data")
      case (Inl e)
      with Inr show ?thesis by (subst fetch_pages.simps) (simp add: axios_def)
    next
      case step: (Inr p)
      obtain gathered hasMore where p: "p = (gathered, hasMore)" by (cases p)
      show ?thesis
      proof (cases hasMore)
        case False
        with Inr step p show ?thesis by (subst fetch_pages.simps) (simp add: axios_def)
      next
        case True
        from step p True have "next_page to_number allAssets data = Inr (gathered, True)"
          by simp
        from next_page_more[OF this k(1)] k(2)
        have "nat (T - int (length gathered)) < nat (T - int (length allAssets))"
          by auto
        from less[OF this] obtain y where
          "fetch_pages to_number remote apiToken (offset + limit) gathered ?w1 = Some y"
          by blast
        with True Inr step p show ?thesis
          by (subst fetch_pages.simps) (simp add: axios_def)
      qed
    qed
  qed
qed

lemma with_cache_info_other:
  "key \<noteq> ''cached'' \<Longrightarrow> key \<noteq> ''cache_age''
   \<Longrightarrow> js_prop (with_cache_info (JObj kvs) c a) key = js_prop (JObj kvs) key"
  by (simp add: with_cache_info_def update_conv')

lemma with_cache_info_own:
  "js_prop (with_cache_info data c a) ''cached'' = JBool c"
  "js_prop (with_cache_info data c a) ''cache_age'' = JNum a"
  by (simp_all add: with_cache_info_def update_conv')

lemma processAssets_length:
  "processAssets native currentYearStart clock i assets = Inr processed
   \<Longrightarrow> length processed = length assets"
  using processAssets_nth by blast

section \<open>Submitting an audit\<close>

text \<open>
  C1 as the code has it. A call without a token is answered 401 and stores nothing. On
  every call with a token the status is computed once, from the body, \<^verbatim>\<open>'match'\<close> when
  \<^verbatim>\<open>expected_location_id === actual_location_id\<close> and \<^verbatim>\<open>'mismatch'\<close> otherwise, and it is
  the status of every answer that has one. When the fields of the body are scalars, the
  status persisted is that one too: if the body can be stored and the ids are not used
  up, the call answers 200 and appends exactly one row, whose \<^verbatim>\<open>status\<close> column holds the
  computed status, to whatever the table held; otherwise it answers 500 and stores
  nothing. The id it returns is the row's, as long as that is a number of at most 53
  bits. Two ids of which exactly one is null are never strictly equal. No later request
  computes a status again: a batch resolve leaves every row its id and location ids and
  its status, or sets the status to \<^verbatim>\<open>'resolved'\<close>; a delete only drops rows.
\<close>

theorem scalar_audit_status_computed_at_creation:
  "(scalar_fields body \<and> truthy apiToken \<and> storable body
      \<and> largest_rowid w < 9223372036854775807 \<longrightarrow>
        fst (submit_audit remote created apiToken body w)
          = Response 200
              (JObj [(''success'', JBool True),
                     (''id'', JNum (js_double (largest_rowid w + 1))),
                     (''status'',
                        JStr (if strict_eq (js_prop body ''expected_location_id'')
                                   (js_prop body ''actual_location_id'')
                              then ''match'' else ''mismatch'')),
                     (''snipeit_audit_posted'',
                        JBool (\<not> isl (remote (remote_log w) (audit_call apiToken body))))])
        \<and> audits (snd (submit_audit remote created apiToken body w))
            = audits w @ [last (audits (snd (submit_audit remote created apiToken body w)))]
        \<and> audit_id (last (audits (snd (submit_audit remote created apiToken body w))))
            = largest_rowid w + 1
        \<and> status (last (audits (snd (submit_audit remote created apiToken body w))))
            = JStr (if strict_eq (js_prop body ''expected_location_id'')
                         (js_prop body ''actual_location_id'')
                    then ''match'' else ''mismatch''))
   \<and> (scalar_fields body \<and> truthy apiToken
        \<and> \<not> (storable body \<and> largest_rowid w < 9223372036854775807) \<longrightarrow>
        fst (submit_audit remote created apiToken body w)
          = Response 500 (error_json ''Failed to save audit'')
        \<and> audits (snd (submit_audit remote created apiToken body w)) = audits w)
   \<and> (\<not> truthy apiToken \<longrightarrow>
        submit_audit remote created apiToken body w
          = (Response 401 (error_json ''API token required''), w))
   \<and> (truthy apiToken \<longrightarrow>
        fst (submit_audit remote created apiToken body w)
          = Response 500 (error_json ''Failed to save audit'')
        \<or> status_code (fst (submit_audit remote created apiToken body w)) = 200
          \<and> js_prop (json (fst (submit_audit remote created apiToken body w))) ''status''
              = JStr (if strict_eq (js_prop body ''expected_location_id'')
                           (js_prop body ''actual_location_id'')
                      then ''match'' else ''mismatch''))
   \<and> (0 \<le> largest_rowid w \<and> largest_rowid w + 1 < 9007199254740992 \<longrightarrow>
        js_double (largest_rowid w + 1) = largest_rowid w + 1)
   \<and> ((x = JNull) \<noteq> (y = JNull) \<longrightarrow> \<not> strict_eq x y)
   \<and> (resolve_audits ADMIN_PASSWORD remote2 numeric clock adminPassword apiToken2 body2 w2
         = (res2, w2')
        \<longrightarrow> list_all2 status_kept (audits w2) (audits w2'))
   \<and> (delete_audit ADMIN_PASSWORD numeric adminPassword id_param w3 = (res3, w3')
        \<longrightarrow> audits w3' = filter (\<lambda>r. r \<in> set (audits w3')) (audits w3))"
proof -
  let ?status = "if strict_eq (js_prop body ''expected_location_id'')
                       (js_prop body ''actual_location_id'')
                 then ''match'' else ''mismatch''"
  have run: "submit_audit remote created apiToken body w =
       (if storable body \<and> largest_rowid w < 9223372036854775807
        then (Response 200
                (JObj [(''success'', JBool True),
                       (''id'', JNum (js_double (largest_rowid w + 1))),
                       (''status'', JStr ?status),
                       (''snipeit_audit_posted'',
                          JBool (\<not> isl (remote (remote_log w) (audit_call apiToken body))))]),
              w\<lparr>remote_log := remote_log w @ [audit_call apiToken body],
                audits := audits w
                  @ [stored_row body created (largest_rowid w + 1) ?status
                       (if isl (remote (remote_log w) (audit_call apiToken body)) then 0 else 1)],
                sqlite_sequence := largest_rowid w + 1\<rparr>)
        else (Response 500 (error_json ''Failed to save audit''),
              w\<lparr>remote_log := remote_log w @ [audit_call apiToken body]\<rparr>))"
    if scalars: "scalar_fields body" and token: "truthy apiToken"
  proof -
    from scalars have printable: "\<not> unprintable (js_prop body ''expected_location_name'')"
      "\<not> unprintable (js_prop body ''actual_location_name'')"
      by (simp_all add: scalar_fields_def scalar_printable)
    have post: "audit_post remote apiToken body w
        = (remote (remote_log w) (audit_call apiToken body),
           w\<lparr>remote_log := remote_log w @ [audit_call apiToken body]\<rparr>)"
      using printable by (simp add: audit_post_def axios_def)
    show ?thesis
      using token
      by (cases "remote (remote_log w) (audit_call apiToken body)")
         (simp_all add: submit_audit_def post insert_audit_scalars[OF scalars]
            audit_status_def)
  qed
  have "scalar_fields body \<and> truthy apiToken \<and> storable body
      \<and> largest_rowid w < 9223372036854775807 \<longrightarrow>
        fst (submit_audit remote created apiToken body w)
          = Response 200
              (JObj [(''success'', JBool True),
                     (''id'', JNum (js_double (largest_rowid w + 1))),
                     (''status'', JStr ?status),
                     (''snipeit_audit_posted'',
                        JBool (\<not> isl (remote (remote_log w) (audit_call apiToken body))))])
        \<and> audits (snd (submit_audit remote created apiToken body w))
            = audits w @ [last (audits (snd (submit_audit remote created apiToken body w)))]
        \<and> audit_id (last (audits (snd (submit_audit remote created apiToken body w))))
            = largest_rowid w + 1
        \<and> status (last (audits (snd (submit_audit remote created apiToken body w))))
            = JStr ?status"
    using run by (simp add: stored_row_def)
  moreover have "scalar_fields body \<and> truthy apiToken
        \<and> \<not> (storable body \<and> largest_rowid w < 9223372036854775807) \<longrightarrow>
        fst (submit_audit remote created apiToken body w)
          = Response 500 (error_json ''Failed to save audit'')
        \<and> audits (snd (submit_audit remote created apiToken body w)) = audits w"
    using run by auto
  moreover have "\<not> truthy apiToken \<longrightarrow>
        submit_audit remote created apiToken body w
          = (Response 401 (error_json ''API token required''), w)"
    by (simp add: submit_audit_def)
  moreover have "truthy apiToken \<longrightarrow>
        fst (submit_audit remote created apiToken body w)
          = Response 500 (error_json ''Failed to save audit'')
        \<or> status_code (fst (submit_audit remote created apiToken body w)) = 200
          \<and> js_prop (json (fst (submit_audit remote created apiToken body w))) ''status''
              = JStr ?status"
    by (auto simp: submit_audit_def audit_status_def Let_def split: prod.splits sum.splits)
  moreover have "0 \<le> largest_rowid w \<and> largest_rowid w + 1 < 9007199254740992 \<longrightarrow>
        js_double (largest_rowid w + 1) = largest_rowid w + 1"
    by (auto intro!: js_double_exact)
  moreover have "(x = JNull) \<noteq> (y = JNull) \<longrightarrow> \<not> strict_eq x y"
    using strict_eq_one_null by (rule impI)
  moreover have "resolve_audits ADMIN_PASSWORD remote2 numeric clock adminPassword apiToken2 body2 w2
         = (res2, w2') \<longrightarrow> list_all2 status_kept (audits w2) (audits w2')"
    using resolve_audits_rows by (rule impI)
  moreover have "delete_audit ADMIN_PASSWORD numeric adminPassword id_param w3 = (res3, w3')
        \<longrightarrow> audits w3' = filter (\<lambda>r. r \<in> set (audits w3')) (audits w3)"
    using delete_audit_rows by (rule impI)
  ultimately show ?thesis by (intro conjI)
qed

theorem scalar_audit_status_computed_at_creation_witness:
  "scalar_fields lab_audit \<and> truthy (JStr ''token'') \<and> storable lab_audit
   \<and> fst (submit_audit remote_up (JStr ''2024-06-01 12:00:00'') (JStr ''token'') lab_audit
        three_mismatches)
     = Response 200 (JObj [(''success'', JBool True), (''id'', JNum 4),
          (''status'', JStr ''match''), (''snipeit_audit_posted'', JBool True)])
   \<and> map status (audits (snd (submit_audit remote_up (JStr ''2024-06-01 12:00:00'')
         (JStr ''token'') lab_audit three_mismatches)))
       = [JStr ''mismatch'', JStr ''mismatch'', JStr ''mismatch'', JStr ''match'']
   \<and> map audit_id (audits (snd (submit_audit remote_up (JStr ''2024-06-01 12:00:00'')
         (JStr ''token'') lab_audit three_mismatches))) = [1, 2, 3, 4]
   \<and> scalar_fields laptop_audit \<and> storable laptop_audit
   \<and> js_prop (json (fst (submit_audit remote_down (JStr ''2024-06-01 12:00:00'')
         (JStr ''token'') laptop_audit empty_world))) ''status'' = JStr ''mismatch''
   \<and> map status (audits (snd (submit_audit remote_down (JStr ''2024-06-01 12:00:00'')
         (JStr ''token'') laptop_audit empty_world))) = [JStr ''mismatch'']
   \<and> scalar_fields (JObj []) \<and> \<not> storable (JObj [])
   \<and> submit_audit remote_up (JStr ''2024-06-01 12:00:00'') (JStr ''token'') (JObj [])
        three_mismatches
     = (Response 500 (error_json ''Failed to save audit''),
        three_mismatches\<lparr>remote_log := [audit_call (JStr ''token'') (JObj [])]\<rparr>)
   \<and> \<not> strict_eq JNull (JNum 2)
   \<and> list_all2 status_kept (audits three_mismatches)
        (audits (snd (resolve_audits ''admin123'' remote_rejects_12 small_ids noon
           (JStr ''admin123'') (JStr ''token'') ids_123 three_mismatches)))
   \<and> map status (audits (snd (resolve_audits ''admin123'' remote_rejects_12 small_ids noon
         (JStr ''admin123'') (JStr ''token'') ids_123 three_mismatches)))
       = [JStr ''resolved'', JStr ''mismatch'', JStr ''resolved'']
   \<and> map audit_id (audits (snd (delete_audit ''admin123'' small_ids (JStr ''admin123'') ''2''
         three_mismatches))) = [1, 3]"
  using scalar_audit_status_computed_at_creation
    [where body = lab_audit and apiToken = "JStr ''token''" and remote = remote_up
      and created = "JStr ''2024-06-01 12:00:00''" and w = three_mismatches
      and x = JNull and y = "JNum 2" and ADMIN_PASSWORD = "''admin123''"
      and ?remote2.0 = remote_rejects_12 and numeric = small_ids and clock = noon
      and adminPassword = "JStr ''admin123''" and ?apiToken2.0 = "JStr ''token''"
      and ?body2.0 = ids_123 and ?w2.0 = three_mismatches
      and ?res2.0 = "fst (resolve_audits ''admin123'' remote_rejects_12 small_ids noon
         (JStr ''admin123'') (JStr ''token'') ids_123 three_mismatches)"
      and w2' = "snd (resolve_audits ''admin123'' remote_rejects_12 small_ids noon
         (JStr ''admin123'') (JStr ''token'') ids_123 three_mismatches)"
      and id_param = "''2''" and ?w3.0 = three_mismatches
      and ?res3.0 = "fst (delete_audit ''admin123'' small_ids (JStr ''admin123'') ''2''
         three_mismatches)"
      and w3' = "snd (delete_audit ''admin123'' small_ids (JStr ''admin123'') ''2''
         three_mismatches)"]
    scalar_audit_status_computed_at_creation
    [where body = laptop_audit and apiToken = "JStr ''token''" and remote = remote_down
      and created = "JStr ''2024-06-01 12:00:00''" and w = empty_world
      and x = JNull and y = "JNum 2" and ADMIN_PASSWORD = "''admin123''"
      and ?remote2.0 = remote_rejects_12 and numeric = small_ids and clock = noon
      and adminPassword = "JStr ''admin123''" and ?apiToken2.0 = "JStr ''token''"
      and ?body2.0 = ids_123 and ?w2.0 = three_mismatches
      and ?res2.0 = "fst (resolve_audits ''admin123'' remote_rejects_12 small_ids noon
         (JStr ''admin123'') (JStr ''token'') ids_123 three_mismatches)"
      and w2' = "snd (resolve_audits ''admin123'' remote_rejects_12 small_ids noon
         (JStr ''admin123'') (JStr ''token'') ids_123 three_mismatches)"
      and id_param = "''2''" and ?w3.0 = three_mismatches
      and ?res3.0 = "fst (delete_audit ''admin123'' small_ids (JStr ''admin123'') ''2''
         three_mismatches)"
      and w3' = "snd (delete_audit ''admin123'' small_ids (JStr ''admin123'') ''2''
         three_mismatches)"]
    scalar_audit_status_computed_at_creation
    [where body = "JObj []" and apiToken = "JStr ''token''" and remote = remote_up
      and created = "JStr ''2024-06-01 12:00:00''" and w = three_mismatches
      and x = JNull and y = "JNum 2" and ADMIN_PASSWORD = "''admin123''"
      and ?remote2.0 = remote_rejects_12 and numeric = small_ids and clock = noon
      and adminPassword = "JStr ''admin123''" and ?apiToken2.0 = "JStr ''token''"
      and ?body2.0 = ids_123 and ?w2.0 = three_mismatches
      and ?res2.0 = "fst (resolve_audits ''admin123'' remote_rejects_12 small_ids noon
         (JStr ''admin123'') (JStr ''token'') ids_123 three_mismatches)"
      and w2' = "snd (resolve_audits ''admin123'' remote_rejects_12 small_ids noon
         (JStr ''admin123'') (JStr ''token'') ids_123 three_mismatches)"
      and id_param = "''2''" and ?w3.0 = three_mismatches
      and ?res3.0 = "fst (delete_audit ''admin123'' small_ids (JStr ''admin123'') ''2''
         three_mismatches)"
      and w3' = "snd (delete_audit ''admin123'' small_ids (JStr ''admin123'') ''2''
         three_mismatches)"]
  by code_simp

text \<open>
  C1 as stated fails on a body with arrays among its fields. The binder gives the elements
  of an array to the parameters one by one: with an empty array as \<^verbatim>\<open>asset_name\<close> and an
  array of two strings as \<^verbatim>\<open>user_name\<close> there are twelve values again, each column from
  \<^verbatim>\<open>asset_name\<close> to \<^verbatim>\<open>notes\<close> gets the value meant for the next one, and the row is
  accepted. The two location ids are equal and the call answers the status \<^verbatim>\<open>'match'\<close>,
  but the \<^verbatim>\<open>status\<close> column of the stored row holds the request's note, and the computed
  status sits in \<^verbatim>\<open>actual_location_name\<close>.
\<close>

theorem array_fields_shift_the_status:
  "\<not> scalar_fields shifted_audit
   \<and> strict_eq (js_prop shifted_audit ''expected_location_id'')
        (js_prop shifted_audit ''actual_location_id'')
   \<and> fst (submit_audit remote_up (JStr ''2024-06-01 12:00:00'') (JStr ''token'')
         shifted_audit empty_world)
       = Response 200 (JObj [(''success'', JBool True), (''id'', JNum 1),
           (''status'', JStr ''match''), (''snipeit_audit_posted'', JBool True)])
   \<and> map status (audits (snd (submit_audit remote_up (JStr ''2024-06-01 12:00:00'')
         (JStr ''token'') shifted_audit empty_world))) = [JStr ''seen'']
   \<and> map actual_location_name (audits (snd (submit_audit remote_up
         (JStr ''2024-06-01 12:00:00'') (JStr ''token'') shifted_audit empty_world)))
       = [JStr ''match'']"
  by code_simp



section \<open>Resolving in batches\<close>

text \<open>
  C3 fails on the code for an id that cannot be converted to a string. Each turn of the
  loop is wrapped in a \<^verbatim>\<open>try\<close> whose \<^verbatim>\<open>catch\<close> pushes the failure as that id's error,
  and so an ordinary batch is itemized: of three mismatches whose second patch the
  remote refuses, the first and third are resolved and the second is reported. But the
  first statement of the \<^verbatim>\<open>catch\<close> logs the id in a template literal. For the batch of
  the ids \<^verbatim>\<open>[{"toString": 1}]\<close> and 2 the lookup of the first id throws (the binder
  refuses the object), the log line throws again inside the \<^verbatim>\<open>catch\<close>, and the error
  leaves the loop and the handler: no answer is written, no entry is pushed for either
  id, and audit 2, which the same request resolves when it is sent alone, is not looked
  at.
\<close>

theorem unprintable_id_aborts_the_batch:
  "js_prop ids_odd_2 ''audit_ids'' = JArr [JArr [JObj [(''toString'', JNum 1)]], JNum 2]
   \<and> isl (select_audit small_ids (JArr [JObj [(''toString'', JNum 1)]]) three_mismatches)
   \<and> unprintable (JArr [JObj [(''toString'', JNum 1)]])
   \<and> resolve_audits ''admin123'' remote_up small_ids noon (JStr ''admin123'') (JStr ''token'')
         ids_odd_2 three_mismatches
       = (Unhandled (JsError None ''Cannot convert object to primitive value''),
          three_mismatches)
   \<and> json (fst (resolve_audits ''admin123'' remote_up small_ids noon (JStr ''admin123'')
         (JStr ''token'') (JObj [(''audit_ids'', JArr [JNum 2])]) three_mismatches))
       = JObj [(''success'', JBool True), (''resolved'', JNum 1), (''failed'', JNum 0),
           (''results'', JArr [success_item (JNum 2)]), (''errors'', JArr [])]
   \<and> json (fst (resolve_audits ''admin123'' remote_rejects_12 small_ids noon (JStr ''admin123'')
         (JStr ''token'') ids_123 three_mismatches))
       = JObj [(''success'', JBool False), (''resolved'', JNum 2), (''failed'', JNum 1),
           (''results'', JArr [success_item (JNum 1), success_item (JNum 3)]),
           (''errors'', JArr [error_item (JNum 2) ''Request failed with status code 500''])]
   \<and> map status (audits (snd (resolve_audits ''admin123'' remote_rejects_12 small_ids noon
         (JStr ''admin123'') (JStr ''token'') ids_123 three_mismatches)))
       = [JStr ''resolved'', JStr ''mismatch'', JStr ''resolved'']"
  by code_simp

theorem unprintable_id_aborts_the_batch_witness:
  "fst (resolve_audits ''admin123'' remote_up small_ids noon (JStr ''admin123'') (JStr ''token'')
         ids_odd_2 three_mismatches) \<noteq> Response 200 (JObj [])
   \<and> map status (audits (snd (resolve_audits ''admin123'' remote_up small_ids noon
         (JStr ''admin123'') (JStr ''token'') ids_odd_2 three_mismatches)))
       = [JStr ''mismatch'', JStr ''mismatch'', JStr ''mismatch'']
   \<and> map status (audits (snd (resolve_audits ''admin123'' remote_up small_ids noon
         (JStr ''admin123'') (JStr ''token'') (JObj [(''audit_ids'', JArr [JNum 2])])
         three_mismatches)))
       = [JStr ''mismatch'', JStr ''resolved'', JStr ''mismatch'']"
  using unprintable_id_aborts_the_batch
  by code_simp

text \<open>
  C4. Resolving audit 1 a second time, after a first call has resolved it: the second
  call itemizes an error for the id and leaves every row as the first call left it, so
  \<^verbatim>\<open>resolved_at\<close> and \<^verbatim>\<open>resolved_by\<close> stay. The error it reports is
  \<^verbatim>\<open>'Audit is not a mismatch'\<close>: the first call has set the status to \<^verbatim>\<open>'resolved'\<close>, and
  the guard on the status comes before the guard on \<^verbatim>\<open>resolved_at\<close>, whose message
  \<^verbatim>\<open>'Already resolved'\<close> is therefore not the one sent.
\<close>

theorem second_resolve_reports_not_a_mismatch:
  "json (fst (resolve_audits ''admin123'' remote_up small_ids noon (JStr ''admin123'')
       (JStr ''token'') (resolve_1_by ''Second'')
       (snd (resolve_audits ''admin123'' remote_up small_ids noon (JStr ''admin123'')
          (JStr ''token'') (resolve_1_by ''First'') three_mismatches))))
     = JObj [(''success'', JBool False), (''resolved'', JNum 0), (''failed'', JNum 1),
         (''results'', JArr []),
         (''errors'', JArr [error_item (JNum 1) ''Audit is not a mismatch''])]
   \<and> error_item (JNum 1) ''Audit is not a mismatch'' \<noteq> error_item (JNum 1) ''Already resolved''
   \<and> audits (snd (resolve_audits ''admin123'' remote_up small_ids noon (JStr ''admin123'')
       (JStr ''token'') (resolve_1_by ''Second'')
       (snd (resolve_audits ''admin123'' remote_up small_ids noon (JStr ''admin123'')
          (JStr ''token'') (resolve_1_by ''First'') three_mismatches))))
     = audits (snd (resolve_audits ''admin123'' remote_up small_ids noon (JStr ''admin123'')
          (JStr ''token'') (resolve_1_by ''First'') three_mismatches))
   \<and> map resolved_by (audits (snd (resolve_audits ''admin123'' remote_up small_ids noon
         (JStr ''admin123'') (JStr ''token'') (resolve_1_by ''First'') three_mismatches)))
     = [JStr ''First'', JNull, JNull]"
  by code_simp

theorem second_resolve_reports_not_a_mismatch_witness:
  "js_prop (json (fst (resolve_audits ''admin123'' remote_up small_ids noon (JStr ''admin123'')
       (JStr ''token'') (resolve_1_by ''Second'')
       (snd (resolve_audits ''admin123'' remote_up small_ids noon (JStr ''admin123'')
          (JStr ''token'') (resolve_1_by ''First'') three_mismatches))))) ''failed'' = JNum 1
   \<and> map (\<lambda>item. js_prop item ''error'')
        (elements (js_prop (json (fst (resolve_audits ''admin123'' remote_up small_ids noon
           (JStr ''admin123'') (JStr ''token'') (resolve_1_by ''Second'')
           (snd (resolve_audits ''admin123'' remote_up small_ids noon (JStr ''admin123'')
              (JStr ''token'') (resolve_1_by ''First'') three_mismatches))))) ''errors''))
      = [JStr ''Audit is not a mismatch'']
   \<and> map status (audits (snd (resolve_audits ''admin123'' remote_up small_ids noon
         (JStr ''admin123'') (JStr ''token'') (resolve_1_by ''First'') three_mismatches)))
      = [JStr ''resolved'', JStr ''mismatch'', JStr ''mismatch'']
   \<and> map resolved_at (audits (snd (resolve_audits ''admin123'' remote_up small_ids noon
         (JStr ''admin123'') (JStr ''token'') (resolve_1_by ''Second'')
         (snd (resolve_audits ''admin123'' remote_up small_ids noon (JStr ''admin123'')
            (JStr ''token'') (resolve_1_by ''First'') three_mismatches)))))
      = [JStr ''2024-06-01T12:00:00.000Z'', JNull, JNull]"
  using second_resolve_reports_not_a_mismatch
  by code_simp

section \<open>Validation\<close>

text \<open>
  C9. A missing input is rejected before any remote call: an absent, empty or blank search
  term, a falsy \<^verbatim>\<open>location_id\<close>, and an \<^verbatim>\<open>audit_ids\<close> that is absent, not an array or
  empty. The world, and with it the log of remote calls, is returned as it was; the
  answer is the validation error 400 with the handler's own message, unless the
  credentials are missing too, which the handlers check first and answer with 401.
\<close>

theorem missing_input_rejected:
  "(\<not> truthy query \<or> query = JStr q \<and> trim q = [] \<longrightarrow>
      search_assets remote apiToken query w =
        (if \<not> truthy apiToken then Response 401 (error_json ''API token required'')
         else Response 400 (error_json ''Search query required''), w))
   \<and> (\<not> truthy (js_prop body ''location_id'') \<longrightarrow>
      patch_location ADMIN_PASSWORD remote adminPassword apiToken body id_param w =
        (if adminPassword \<noteq> JStr ADMIN_PASSWORD
         then Response 401 (error_json ''Admin password required'')
         else if \<not> truthy apiToken
         then Response 401 (error_json ''Snipe-IT API token required'')
         else Response 400 (error_json ''location_id is required''), w))
   \<and> (\<not> truthy (js_prop body ''audit_ids'') \<or> \<not> is_array (js_prop body ''audit_ids'')
        \<or> elements (js_prop body ''audit_ids'') = [] \<longrightarrow>
      resolve_audits ADMIN_PASSWORD remote numeric clock adminPassword apiToken body w =
        (if adminPassword \<noteq> JStr ADMIN_PASSWORD
         then Response 401 (error_json ''Admin password required'')
         else if \<not> truthy apiToken
         then Response 401 (error_json ''Snipe-IT API token required'')
         else Response 400 (error_json ''audit_ids array is required''), w))"
proof (intro conjI impI)
  assume "\<not> truthy query \<or> query = JStr q \<and> trim q = []"
  then show "search_assets remote apiToken query w =
        (if \<not> truthy apiToken then Response 401 (error_json ''API token required'')
         else Response 400 (error_json ''Search query required''), w)"
    by (auto simp: search_assets_def)
next
  assume "\<not> truthy (js_prop body ''location_id'')"
  then show "patch_location ADMIN_PASSWORD remote adminPassword apiToken body id_param w =
        (if adminPassword \<noteq> JStr ADMIN_PASSWORD
         then Response 401 (error_json ''Admin password required'')
         else if \<not> truthy apiToken
         then Response 401 (error_json ''Snipe-IT API token required'')
         else Response 400 (error_json ''location_id is required''), w)"
    by (simp add: patch_location_def)
next
  assume "\<not> truthy (js_prop body ''audit_ids'') \<or> \<not> is_array (js_prop body ''audit_ids'')
        \<or> elements (js_prop body ''audit_ids'') = []"
  then show "resolve_audits ADMIN_PASSWORD remote numeric clock adminPassword apiToken body w =
        (if adminPassword \<noteq> JStr ADMIN_PASSWORD
         then Response 401 (error_json ''Admin password required'')
         else if \<not> truthy apiToken
         then Response 401 (error_json ''Snipe-IT API token required'')
         else Response 400 (error_json ''audit_ids array is required''), w)"
    by (auto simp: resolve_audits_def)
qed

theorem missing_input_rejected_witness:
  "trim ''   '' = []
   \<and> search_assets remote_up (JStr ''token'') (JStr ''   '') three_mismatches
       = (Response 400 (error_json ''Search query required''), three_mismatches)
   \<and> \<not> truthy (js_prop (JObj []) ''location_id'')
   \<and> patch_location ''admin123'' remote_up (JStr ''admin123'') (JStr ''token'') (JObj []) ''7''
         three_mismatches
       = (Response 400 (error_json ''location_id is required''), three_mismatches)
   \<and> elements (js_prop (JObj [(''audit_ids'', JArr [])]) ''audit_ids'') = []
   \<and> resolve_audits ''admin123'' remote_up small_ids noon (JStr ''admin123'') (JStr ''token'')
         (JObj [(''audit_ids'', JArr [])]) three_mismatches
       = (Response 400 (error_json ''audit_ids array is required''), three_mismatches)"
  using missing_input_rejected
    [of "JStr ''   ''" "''   ''" remote_up "JStr ''token''" three_mismatches "JObj []"
      "''admin123''" "JStr ''admin123''" "''7''"]
    missing_input_rejected
    [of "JStr ''   ''" "''   ''" remote_up "JStr ''token''" three_mismatches
      "JObj [(''audit_ids'', JArr [])]" "''admin123''" "JStr ''admin123''" "''7''" small_ids noon]
  by code_simp

section \<open>Deleting an audit\<close>

text \<open>
  C10. With the admin password, delete-audit answers success whether or not a row has
  the id; it drops exactly the rows whose id the parameter denotes and leaves the others,
  and the rest of the world, as they were. When no row has the id nothing changes; when
  the ids are distinct at most one row goes; a second delete of the same id gives the
  same answer and the same world as the first.
\<close>

theorem delete_audit_idempotent:
  assumes "adminPassword = JStr ADMIN_PASSWORD"
  shows "fst (delete_audit ADMIN_PASSWORD numeric adminPassword id_param w)
           = Response 200 (JObj [(''success'', JBool True)])
     \<and> snd (delete_audit ADMIN_PASSWORD numeric adminPassword id_param w)
           = w\<lparr>audits := filter (\<lambda>r. numeric id_param \<noteq> Some (audit_id r)) (audits w)\<rparr>
     \<and> (list_all (\<lambda>r. numeric id_param \<noteq> Some (audit_id r)) (audits w) \<longrightarrow>
           snd (delete_audit ADMIN_PASSWORD numeric adminPassword id_param w) = w)
     \<and> (distinct (map audit_id (audits w)) \<longrightarrow>
           length (audits w)
             \<le> Suc (length (audits (snd (delete_audit ADMIN_PASSWORD numeric adminPassword
                   id_param w)))))
     \<and> delete_audit ADMIN_PASSWORD numeric adminPassword id_param
           (snd (delete_audit ADMIN_PASSWORD numeric adminPassword id_param w))
         = delete_audit ADMIN_PASSWORD numeric adminPassword id_param w"
proof -
  have eq: "delete_audit ADMIN_PASSWORD numeric adminPassword id_param v
      = (Response 200 (JObj [(''success'', JBool True)]),
         v\<lparr>audits := filter (\<lambda>r. numeric id_param \<noteq> Some (audit_id r)) (audits v)\<rparr>)" for v
    using assms by (simp add: delete_audit_def delete_where_id_def sql_id_eq_def)
  have same: "list_all (\<lambda>r. numeric id_param \<noteq> Some (audit_id r)) (audits w) \<longrightarrow>
      w\<lparr>audits := filter (\<lambda>r. numeric id_param \<noteq> Some (audit_id r)) (audits w)\<rparr> = w"
    by (simp add: list_all_iff filter_id_conv[THEN iffD2])
  show ?thesis
    unfolding eq using same filter_distinct_key[of audit_id "audits w" "numeric id_param"]
    by simp
qed

theorem delete_audit_idempotent_witness:
  "map audit_id (audits (snd (delete_audit ''admin123'' small_ids (JStr ''admin123'') ''2''
       three_mismatches))) = [1, 3]
   \<and> fst (delete_audit ''admin123'' small_ids (JStr ''admin123'') ''9'' three_mismatches)
       = Response 200 (JObj [(''success'', JBool True)])
   \<and> snd (delete_audit ''admin123'' small_ids (JStr ''admin123'') ''9'' three_mismatches)
       = three_mismatches
   \<and> distinct (map audit_id (audits three_mismatches))
   \<and> delete_audit ''admin123'' small_ids (JStr ''admin123'') ''2''
         (snd (delete_audit ''admin123'' small_ids (JStr ''admin123'') ''2'' three_mismatches))
       = delete_audit ''admin123'' small_ids (JStr ''admin123'') ''2'' three_mismatches"
  using delete_audit_idempotent[of "JStr ''admin123''" "''admin123''" small_ids "''2''"
      three_mismatches]
    delete_audit_idempotent[of "JStr ''admin123''" "''admin123''" small_ids "''9''"
      three_mismatches]
  by code_simp

section \<open>Classifying assets\<close>

text \<open>
  C5 as the code has it. An asset whose raw \<^verbatim>\<open>last_audit_date\<close> is falsy (absent, null,
  the empty string, zero or false) has a null extraction, carries
  \<^verbatim>\<open>never_audited: true\<close>, is in the snapshot's \<^verbatim>\<open>never_audited\<close> bucket and is not in its
  \<^verbatim>\<open>not_audited_this_year\<close> bucket; the two buckets share no asset.
\<close>

theorem never_audited_bucket:
  assumes "processAssets native currentYearStart clock 0 allAssets = Inr processed"
    and "k < length allAssets"
    and "\<not> truthy (js_prop (allAssets ! k) ''last_audit_date'')"
  shows "extractDate (js_prop (allAssets ! k) ''last_audit_date'') = JNull
     \<and> js_prop (processed ! k) ''never_audited'' = JBool True
     \<and> processed ! k \<in> set (elements (js_prop (snapshot allAssets processed) ''never_audited''))
     \<and> processed ! k
          \<notin> set (elements (js_prop (snapshot allAssets processed) ''not_audited_this_year''))
     \<and> set (elements (js_prop (snapshot allAssets processed) ''never_audited''))
          \<inter> set (elements (js_prop (snapshot allAssets processed) ''not_audited_this_year''))
         = {}"
proof -
  from processAssets_nth[OF assms(1)] assms(2)
  have len: "length processed = length allAssets"
    and one: "processAsset native currentYearStart (clock (0 + k)) (allAssets ! k)
                = Inr (processed ! k)"
    by simp_all
  from processAsset_flags(1)[OF one] assms(3)
  have flag: "js_prop (processed ! k) ''never_audited'' = JBool True" by simp
  from len assms(2) have mem: "processed ! k \<in> set processed" by simp
  from flag mem extractDate_falsy[OF assms(3)] show ?thesis
    by (auto simp: snapshot_def neverAudited_def notAuditedThisYear_def)
qed

theorem never_audited_bucket_witness:
  "processAssets never_parses year_2024 june_2024 0 [bare_asset] = Inr [bare_processed]
   \<and> \<not> truthy (js_prop ([bare_asset] ! 0) ''last_audit_date'')
   \<and> elements (js_prop (snapshot [bare_asset] [bare_processed]) ''never_audited'')
       = [bare_processed]
   \<and> elements (js_prop (snapshot [bare_asset] [bare_processed]) ''not_audited_this_year'') = []"
proof -
  have run: "processAssets never_parses year_2024 june_2024 0 [bare_asset]
               = Inr [bare_processed]"
    by code_simp
  have absent: "\<not> truthy (js_prop ([bare_asset] ! 0) ''last_audit_date'')"
    by code_simp
  have buckets: "elements (js_prop (snapshot [bare_asset] [bare_processed]) ''never_audited'')
       = [bare_processed]
     \<and> elements (js_prop (snapshot [bare_asset] [bare_processed]) ''not_audited_this_year'')
       = []"
    by code_simp
  from never_audited_bucket[OF run _ absent] run absent buckets show ?thesis
    by simp
qed

text \<open>
  C5 as stated fails: the flag tests the raw field, not its extraction. An asset whose
  \<^verbatim>\<open>last_audit_date\<close> is an object with neither \<^verbatim>\<open>datetime\<close> nor \<^verbatim>\<open>formatted\<close> has a null
  extraction, yet it carries \<^verbatim>\<open>never_audited: false\<close> and lands in the
  \<^verbatim>\<open>not_audited_this_year\<close> bucket, not in the \<^verbatim>\<open>never_audited\<close> one.
\<close>

theorem empty_object_date_not_never_audited:
  "extractDate (js_prop blank_date_asset ''last_audit_date'') = JNull
   \<and> processAssets never_parses year_2024 june_2024 0 [blank_date_asset] = Inr [blank_date_processed]
   \<and> js_prop blank_date_processed ''never_audited'' = JBool False
   \<and> elements (js_prop (snapshot [blank_date_asset] [blank_date_processed]) ''never_audited'') = []
   \<and> elements (js_prop (snapshot [blank_date_asset] [blank_date_processed]) ''not_audited_this_year'')
       = [blank_date_processed]"
  by code_simp

text \<open>
  C6 as the code has it. A falsy field (absent, null, the empty string, zero, false) gives
  null; a non-empty string is used as it is; an object gives its \<^verbatim>\<open>datetime\<close> when that
  is truthy, else its \<^verbatim>\<open>formatted\<close> when that is truthy, else null; numbers, booleans and
  arrays give null. \<^verbatim>\<open>parseDate\<close> gives null when the extraction is null or when the
  engine cannot parse it, and the engine's date otherwise.
\<close>

theorem extractDate_cases:
  "(\<not> truthy dateField \<longrightarrow> extractDate dateField = JNull)
   \<and> extractDate JUndefined = JNull
   \<and> (s \<noteq> [] \<longrightarrow> extractDate (JStr s) = JStr s)
   \<and> (truthy (js_prop (JObj kvs) ''datetime'') \<longrightarrow>
        extractDate (JObj kvs) = js_prop (JObj kvs) ''datetime'')
   \<and> (\<not> truthy (js_prop (JObj kvs) ''datetime'') \<and> truthy (js_prop (JObj kvs) ''formatted'') \<longrightarrow>
        extractDate (JObj kvs) = js_prop (JObj kvs) ''formatted'')
   \<and> (\<not> truthy (js_prop (JObj kvs) ''datetime'') \<and> \<not> truthy (js_prop (JObj kvs) ''formatted'') \<longrightarrow>
        extractDate (JObj kvs) = JNull)
   \<and> extractDate (JNum n) = JNull \<and> extractDate (JBool b) = JNull
   \<and> extractDate (JArr xs) = JNull
   \<and> (extractDate dateField = JNull \<or> native (extractDate dateField) = None \<longrightarrow>
        parseDate native dateField = None)
   \<and> (extractDate dateField \<noteq> JNull \<longrightarrow>
        parseDate native dateField = native (extractDate dateField))"
  by (cases dateField) (auto simp: extractDate_def parseDate_def Let_def)

theorem extractDate_cases_witness:
  "extractDate (JObj [(''datetime'', JStr ''2023-01-01T00:00:00Z'')]) = JStr ''2023-01-01T00:00:00Z''
   \<and> extractDate (JObj [(''formatted'', JStr ''Jan 1, 2023'')]) = JStr ''Jan 1, 2023''
   \<and> extractDate (JObj []) = JNull
   \<and> extractDate (JStr ''2023-01-01'') = JStr ''2023-01-01''
   \<and> extractDate JNull = JNull
   \<and> parseDate never_parses (JStr ''not a date'') = None"
  using extractDate_cases[where dateField = JNull and s = "''2023-01-01''"
      and kvs = "[(''datetime'', JStr ''2023-01-01T00:00:00Z'')]" and native = never_parses]
    extractDate_cases[where dateField = "JStr ''not a date''"
      and kvs = "[(''formatted'', JStr ''Jan 1, 2023'')]" and native = never_parses]
    extractDate_cases[where dateField = JNull and kvs = "[]" and native = never_parses]
  by code_simp

text \<open>
  C6 as stated fails on the empty string, a plain string that is not used as it is: the
  guard \<^verbatim>\<open>!dateField\<close> returns null for it.
\<close>

theorem empty_string_date_is_null:
  "extractDate (JStr '''') = JNull \<and> extractDate (JStr '''') \<noteq> JStr ''''"
  by (simp add: extractDate_def)

section \<open>The snapshot cache\<close>

text \<open>
  C7 as the code has it, for a request with the admin password and a token. A get that
  does not force a refresh while the slot holds a snapshot object and a non-zero
  timestamp with \<^verbatim>\<open>now - timestamp < 600000\<close> makes no remote call and changes nothing: it
  answers the stored snapshot's properties unchanged, with \<^verbatim>\<open>cached: true\<close> and
  \<^verbatim>\<open>cache_age\<close> the age rounded to whole seconds, \<^verbatim>\<open>Math.round((now - timestamp) / 1000)\<close>.
  Every other get (forced, slot empty, timestamp expired) fetches all pages again, from
  offset 0. When the fetch and the classification succeed it stores the snapshot with
  the timestamp \<^verbatim>\<open>now\<close> and answers it with \<^verbatim>\<open>cached: false\<close> and \<^verbatim>\<open>cache_age: 0\<close>; when one
  of them throws it answers the error and leaves the slot as it was; when the paging
  never ends there is no answer.
\<close>

theorem snapshot_cache:
  assumes "adminPassword = JStr ADMIN_PASSWORD" and "truthy apiToken"
  shows "(refresh \<noteq> JStr ''true'' \<and> assetCache_data w = JObj kvs
          \<and> assetCache_timestamp w = Some timestamp \<and> timestamp \<noteq> 0
          \<and> now - timestamp < 600000 \<longrightarrow>
        get_assets ADMIN_PASSWORD to_number remote native now currentYearStart clock adminPassword
            apiToken refresh w
          = Some (Response 200
                    (with_cache_info (JObj kvs) True ((now - timestamp + 500) div 1000)), w)
        \<and> js_prop (with_cache_info (JObj kvs) True ((now - timestamp + 500) div 1000)) ''cached''
            = JBool True
        \<and> js_prop (with_cache_info (JObj kvs) True ((now - timestamp + 500) div 1000))
              ''cache_age''
            = JNum ((now - timestamp + 500) div 1000)
        \<and> (key \<noteq> ''cached'' \<and> key \<noteq> ''cache_age'' \<longrightarrow>
             js_prop (with_cache_info (JObj kvs) True ((now - timestamp + 500) div 1000)) key
               = js_prop (JObj kvs) key))
     \<and> (refresh = JStr ''true'' \<or> \<not> truthy (assetCache_data w)
          \<or> assetCache_timestamp w = None \<or> assetCache_timestamp w = Some 0
          \<or> assetCache_timestamp w = Some timestamp \<and> 600000 \<le> now - timestamp \<longrightarrow>
        (fetch_pages to_number remote apiToken 0 [] w = None \<longrightarrow>
           get_assets ADMIN_PASSWORD to_number remote native now currentYearStart clock adminPassword
               apiToken refresh w = None)
        \<and> (fetch_pages to_number remote apiToken 0 [] w = Some (Inl e, w1) \<longrightarrow>
             get_assets ADMIN_PASSWORD to_number remote native now currentYearStart clock adminPassword
                 apiToken refresh w
               = Some (remote_failure ''Failed to fetch assets from Snipe-IT'' e, w1)
             \<and> assetCache_data w1 = assetCache_data w
             \<and> assetCache_timestamp w1 = assetCache_timestamp w)
        \<and> (fetch_pages to_number remote apiToken 0 [] w = Some (Inr allAssets, w1)
             \<and> processAssets native currentYearStart clock 0 allAssets = Inl e \<longrightarrow>
             get_assets ADMIN_PASSWORD to_number remote native now currentYearStart clock adminPassword
                 apiToken refresh w
               = Some (remote_failure ''Failed to fetch assets from Snipe-IT'' e, w1)
             \<and> assetCache_data w1 = assetCache_data w
             \<and> assetCache_timestamp w1 = assetCache_timestamp w)
        \<and> (fetch_pages to_number remote apiToken 0 [] w = Some (Inr allAssets, w1)
             \<and> processAssets native currentYearStart clock 0 allAssets = Inr processed \<longrightarrow>
             get_assets ADMIN_PASSWORD to_number remote native now currentYearStart clock adminPassword
                 apiToken refresh w
               = Some (Response 200 (with_cache_info (snapshot allAssets processed) False 0),
                       w1\<lparr>assetCache_data := snapshot allAssets processed,
                          assetCache_timestamp := Some now\<rparr>)
             \<and> js_prop (with_cache_info (snapshot allAssets processed) False 0) ''cached''
                 = JBool False
             \<and> js_prop (with_cache_info (snapshot allAssets processed) False 0) ''cache_age''
                 = JNum 0
             \<and> (key \<noteq> ''cached'' \<and> key \<noteq> ''cache_age'' \<longrightarrow>
                  js_prop (with_cache_info (snapshot allAssets processed) False 0) key
                    = js_prop (snapshot allAssets processed) key)
             \<and> take (Suc (length (remote_log w))) (remote_log w1)
                 = remote_log w @ [GetHardwarePage apiToken 500 0]))"
proof (intro conjI impI)
  assume hit: "refresh \<noteq> JStr ''true'' \<and> assetCache_data w = JObj kvs
          \<and> assetCache_timestamp w = Some timestamp \<and> timestamp \<noteq> 0
          \<and> now - timestamp < 600000"
  with assms show "get_assets ADMIN_PASSWORD to_number remote native now currentYearStart clock
      adminPassword apiToken refresh w
      = Some (Response 200
                (with_cache_info (JObj kvs) True ((now - timestamp + 500) div 1000)), w)"
    by (simp add: get_assets_def cache_fresh_def ttl_def round_seconds_def)
next
  assume miss: "refresh = JStr ''true'' \<or> \<not> truthy (assetCache_data w)
          \<or> assetCache_timestamp w = None \<or> assetCache_timestamp w = Some 0
          \<or> assetCache_timestamp w = Some timestamp \<and> 600000 \<le> now - timestamp"
  then have m: "\<not> (\<not> strict_eq refresh (JStr ''true'') \<and> cache_fresh now w)"
    by (auto simp: cache_fresh_def ttl_def)
  {
    assume "fetch_pages to_number remote apiToken 0 [] w = None"
    with assms m show "get_assets ADMIN_PASSWORD to_number remote native now currentYearStart clock
        adminPassword apiToken refresh w = None"
      by (auto simp: get_assets_def Let_def)
  next
    assume f: "fetch_pages to_number remote apiToken 0 [] w = Some (Inl e, w1)"
    with assms m show "get_assets ADMIN_PASSWORD to_number remote native now currentYearStart clock
        adminPassword apiToken refresh w
        = Some (remote_failure ''Failed to fetch assets from Snipe-IT'' e, w1)"
      by (auto simp: get_assets_def Let_def)
    from fetch_pages_frame[OF f]
    show "assetCache_data w1 = assetCache_data w"
      and "assetCache_timestamp w1 = assetCache_timestamp w"
      by simp_all
  next
    assume f: "fetch_pages to_number remote apiToken 0 [] w = Some (Inr allAssets, w1)
             \<and> processAssets native currentYearStart clock 0 allAssets = Inl e"
    with assms m show "get_assets ADMIN_PASSWORD to_number remote native now currentYearStart clock
        adminPassword apiToken refresh w
        = Some (remote_failure ''Failed to fetch assets from Snipe-IT'' e, w1)"
      by (auto simp: get_assets_def Let_def)
    from f fetch_pages_frame[of to_number remote apiToken 0 "[]" w "(Inr allAssets, w1)"]
    show "assetCache_data w1 = assetCache_data w"
      and "assetCache_timestamp w1 = assetCache_timestamp w"
      by simp_all
  next
    assume f: "fetch_pages to_number remote apiToken 0 [] w = Some (Inr allAssets, w1)
             \<and> processAssets native currentYearStart clock 0 allAssets = Inr processed"
    with assms m show "get_assets ADMIN_PASSWORD to_number remote native now currentYearStart clock
        adminPassword apiToken refresh w
        = Some (Response 200 (with_cache_info (snapshot allAssets processed) False 0),
                w1\<lparr>assetCache_data := snapshot allAssets processed,
                   assetCache_timestamp := Some now\<rparr>)"
      by (auto simp: get_assets_def Let_def)
    from f fetch_pages_frame[of to_number remote apiToken 0 "[]" w "(Inr allAssets, w1)"]
    show "take (Suc (length (remote_log w))) (remote_log w1)
            = remote_log w @ [GetHardwarePage apiToken 500 0]"
      by (auto simp: limit_def)
  }
qed (simp_all add: with_cache_info_own with_cache_info_other snapshot_def)

theorem snapshot_cache_witness:
  "get_assets ''admin123'' small_ids remote_one_asset never_parses 1000 year_2024 june_2024
       (JStr ''admin123'') (JStr ''token'') JUndefined empty_world
     = Some (Response 200 (with_cache_info (snapshot [bare_asset] [bare_processed]) False 0),
             cached_world\<lparr>remote_log := [GetHardwarePage (JStr ''token'') 500 0]\<rparr>)
   \<and> get_assets ''admin123'' small_ids remote_one_asset never_parses 6600 year_2024 june_2024
       (JStr ''admin123'') (JStr ''token'') JUndefined cached_world
     = Some (Response 200 (with_cache_info (snapshot [bare_asset] [bare_processed]) True 6),
             cached_world)
   \<and> get_assets ''admin123'' small_ids remote_one_asset never_parses 6600 year_2024 june_2024
       (JStr ''admin123'') (JStr ''token'') (JStr ''true'') cached_world
     = Some (Response 200 (with_cache_info (snapshot [bare_asset] [bare_processed]) False 0),
             cached_world\<lparr>remote_log := [GetHardwarePage (JStr ''token'') 500 0],
               assetCache_timestamp := Some 6600\<rparr>)
   \<and> get_assets ''admin123'' small_ids remote_one_asset never_parses 601000 year_2024 june_2024
       (JStr ''admin123'') (JStr ''token'') JUndefined cached_world
     = Some (Response 200 (with_cache_info (snapshot [bare_asset] [bare_processed]) False 0),
             cached_world\<lparr>remote_log := [GetHardwarePage (JStr ''token'') 500 0],
               assetCache_timestamp := Some 601000\<rparr>)"
  using snapshot_cache[of "JStr ''admin123''" "''admin123''" "JStr ''token''" JUndefined
      cached_world
      "[(''total'', JNum 1), (''never_audited'', JArr [bare_processed]),
        (''not_audited_this_year'', JArr []), (''audit_overdue'', JArr []),
        (''all_assets'', JArr [bare_processed])]"
      1000 6600 small_ids remote_one_asset never_parses year_2024 june_2024]
    snapshot_cache[of "JStr ''admin123''" "''admin123''" "JStr ''token''" "JStr ''true''"
      cached_world "[]" 1000 6600 small_ids remote_one_asset never_parses year_2024 june_2024]
  by code_simp

text \<open>
  C7 as stated fails on the age: with the slot filled at time 1000, a get at time 6000
  answers \<^verbatim>\<open>cache_age: 5\<close>, the seconds, not \<^verbatim>\<open>now - timestamp\<close>, which is 5000.
\<close>

theorem cached_age_in_seconds:
  "assetCache_timestamp cached_world = Some 1000
   \<and> get_assets ''admin123'' small_ids remote_down never_parses 6000 year_2024 june_2024
       (JStr ''admin123'') (JStr ''token'') JUndefined cached_world
     = Some (Response 200 (with_cache_info (assetCache_data cached_world) True 5), cached_world)
   \<and> js_prop (with_cache_info (assetCache_data cached_world) True 5) ''cache_age''
       \<noteq> JNum (6000 - 1000)"
  by code_simp

section \<open>Paging\<close>

text \<open>
  C8 as the code has it. When every page the remote answers reports a number as its total,
  and these totals are bounded, the paging loop returns, whatever the rows of the pages
  are, the offset and the assets gathered so far: a page after which the loop goes on has
  added at least one asset without reaching its total. The loop asks for pages of 500. On
  a page whose rows are an array it stops, having made that one call, when fewer than 500
  rows came or the gathered count has reached the reported total, and otherwise it goes on
  from the next offset with the rows appended; a page whose rows are falsy counts as
  empty. Rows that are an object without a length are appended as one asset, and the loop
  goes on unless the count has reached the total. The snapshot's total is the number of
  assets gathered, and \<^verbatim>\<open>all_assets\<close> has as many entries.
\<close>

theorem paged_fetch_terminates:
  assumes "\<And>log offset data. remote log (GetHardwarePage apiToken 500 offset) = Inr data
             \<Longrightarrow> \<exists>k. js_prop data ''total'' = JNum k \<and> k \<le> T"
  shows "fetch_pages to_number remote apiToken offset allAssets w \<noteq> None
     \<and> (remote (remote_log w) (GetHardwarePage apiToken 500 offset) = Inr data
          \<and> js_prop data ''rows'' = JArr xs \<and> js_prop data ''total'' = JNum k
          \<and> (length xs < 500 \<or> k \<le> int (length allAssets + length xs)) \<longrightarrow>
        fetch_pages to_number remote apiToken offset allAssets w
          = Some (Inr (allAssets @ xs),
                  w\<lparr>remote_log := remote_log w @ [GetHardwarePage apiToken 500 offset]\<rparr>))
     \<and> (remote (remote_log w) (GetHardwarePage apiToken 500 offset) = Inr data
          \<and> js_prop data ''rows'' = JArr xs \<and> js_prop data ''total'' = JNum k
          \<and> 500 \<le> length xs \<and> int (length allAssets + length xs) < k \<longrightarrow>
        fetch_pages to_number remote apiToken offset allAssets w
          = fetch_pages to_number remote apiToken (offset + 500) (allAssets @ xs)
              (w\<lparr>remote_log := remote_log w @ [GetHardwarePage apiToken 500 offset]\<rparr>))
     \<and> (remote (remote_log w) (GetHardwarePage apiToken 500 offset) = Inr data
          \<and> data \<noteq> JNull \<and> data \<noteq> JUndefined \<and> \<not> truthy (js_prop data ''rows'')
          \<and> js_prop data ''total'' = JNum k \<longrightarrow>
        fetch_pages to_number remote apiToken offset allAssets w
          = Some (Inr allAssets,
                  w\<lparr>remote_log := remote_log w @ [GetHardwarePage apiToken 500 offset]\<rparr>))
     \<and> (remote (remote_log w) (GetHardwarePage apiToken 500 offset) = Inr data
          \<and> js_prop data ''rows'' = JObj kvs \<and> js_prop (JObj kvs) ''length'' = JUndefined
          \<and> js_prop data ''total'' = JNum k \<and> int (length allAssets) + 1 < k \<longrightarrow>
        fetch_pages to_number remote apiToken offset allAssets w
          = fetch_pages to_number remote apiToken (offset + 500) (allAssets @ [JObj kvs])
              (w\<lparr>remote_log := remote_log w @ [GetHardwarePage apiToken 500 offset]\<rparr>))
     \<and> (processAssets native currentYearStart clock 0 fetched = Inr processed \<longrightarrow>
        js_prop (snapshot fetched processed) ''total'' = JNum (int (length fetched))
        \<and> length (elements (js_prop (snapshot fetched processed) ''all_assets''))
            = length fetched)"
proof (intro conjI impI)
  from assms have "\<exists>y. fetch_pages to_number remote apiToken offset allAssets w = Some y"
    by (intro fetch_pages_bounded[where T = T]) (simp add: limit_def)
  then show "fetch_pages to_number remote apiToken offset allAssets w \<noteq> None" by auto
next
  assume "remote (remote_log w) (GetHardwarePage apiToken 500 offset) = Inr data
          \<and> js_prop data ''rows'' = JArr xs \<and> js_prop data ''total'' = JNum k
          \<and> (length xs < 500 \<or> k \<le> int (length allAssets + length xs))"
  then show "fetch_pages to_number remote apiToken offset allAssets w
          = Some (Inr (allAssets @ xs),
                  w\<lparr>remote_log := remote_log w @ [GetHardwarePage apiToken 500 offset]\<rparr>)"
    by (subst fetch_pages.simps) (auto simp: axios_def limit_def next_page_array)
next
  assume "remote (remote_log w) (GetHardwarePage apiToken 500 offset) = Inr data
          \<and> js_prop data ''rows'' = JArr xs \<and> js_prop data ''total'' = JNum k
          \<and> 500 \<le> length xs \<and> int (length allAssets + length xs) < k"
  then show "fetch_pages to_number remote apiToken offset allAssets w
          = fetch_pages to_number remote apiToken (offset + 500) (allAssets @ xs)
              (w\<lparr>remote_log := remote_log w @ [GetHardwarePage apiToken 500 offset]\<rparr>)"
    by (subst fetch_pages.simps) (auto simp: axios_def limit_def next_page_array)
next
  assume "remote (remote_log w) (GetHardwarePage apiToken 500 offset) = Inr data
          \<and> data \<noteq> JNull \<and> data \<noteq> JUndefined \<and> \<not> truthy (js_prop data ''rows'')
          \<and> js_prop data ''total'' = JNum k"
  then show "fetch_pages to_number remote apiToken offset allAssets w
          = Some (Inr allAssets,
                  w\<lparr>remote_log := remote_log w @ [GetHardwarePage apiToken 500 offset]\<rparr>)"
    by (subst fetch_pages.simps)
       (auto simp: axios_def limit_def next_page_def get_prop_def or_else_def js_concat_def
          js_length_def js_less_def js_number_def Let_def)
next
  assume "remote (remote_log w) (GetHardwarePage apiToken 500 offset) = Inr data
          \<and> js_prop data ''rows'' = JObj kvs \<and> js_prop (JObj kvs) ''length'' = JUndefined
          \<and> js_prop data ''total'' = JNum k \<and> int (length allAssets) + 1 < k"
  moreover from this have "data \<noteq> JNull" "data \<noteq> JUndefined" by auto
  ultimately show "fetch_pages to_number remote apiToken offset allAssets w
          = fetch_pages to_number remote apiToken (offset + 500) (allAssets @ [JObj kvs])
              (w\<lparr>remote_log := remote_log w @ [GetHardwarePage apiToken 500 offset]\<rparr>)"
    by (subst fetch_pages.simps)
       (auto simp: axios_def limit_def next_page_def get_prop_def or_else_def js_concat_def
          js_length_def js_less_def js_at_least_def js_number_def Let_def)
next
  assume "processAssets native currentYearStart clock 0 fetched = Inr processed"
  then show "length (elements (js_prop (snapshot fetched processed) ''all_assets''))
            = length fetched"
    by (simp add: snapshot_def processAssets_length)
qed (simp add: snapshot_def)

theorem paged_fetch_terminates_witness:
  "fetch_pages small_ids remote_two_pages (JStr ''token'') 0 [] empty_world
     = Some (Inr (replicate 500 (JObj []) @ [JObj [(''id'', JNum 501)]]),
             empty_world\<lparr>remote_log := [GetHardwarePage (JStr ''token'') 500 0,
               GetHardwarePage (JStr ''token'') 500 500]\<rparr>)
   \<and> fetch_pages small_ids remote_one_asset (JStr ''token'') 0 [] empty_world
     = Some (Inr [bare_asset],
             empty_world\<lparr>remote_log := [GetHardwarePage (JStr ''token'') 500 0]\<rparr>)
   \<and> fetch_pages small_ids remote_object_rows (JStr ''token'') 0 [] empty_world
     = Some (Inr [JObj [(''a'', JNum 1)], JObj [(''a'', JNum 1)], JObj [(''a'', JNum 1)]],
             empty_world\<lparr>remote_log := [GetHardwarePage (JStr ''token'') 500 0,
               GetHardwarePage (JStr ''token'') 500 500,
               GetHardwarePage (JStr ''token'') 500 1000]\<rparr>)
   \<and> js_prop (snapshot [bare_asset] [bare_processed]) ''total'' = JNum 1"
proof -
  have bounded: "\<And>log offset data.
      remote_two_pages log (GetHardwarePage (JStr ''token'') 500 offset) = Inr data
      \<Longrightarrow> \<exists>k. js_prop data ''total'' = JNum k \<and> k \<le> 501"
    by (auto simp: remote_two_pages_def split: if_splits)
  have first: "fetch_pages small_ids remote_two_pages (JStr ''token'') 0 [] empty_world
     = fetch_pages small_ids remote_two_pages (JStr ''token'') (0 + 500)
         ([] @ replicate 500 (JObj []))
         (empty_world\<lparr>remote_log := remote_log empty_world
            @ [GetHardwarePage (JStr ''token'') 500 0]\<rparr>)"
    using paged_fetch_terminates[where remote = remote_two_pages
        and apiToken = "JStr ''token''" and T = 501, OF bounded,
        where w = empty_world and offset = 0 and to_number = small_ids
        and data = "JObj [(''total'', JNum 501), (''rows'', JArr (replicate 500 (JObj [])))]"
        and xs = "replicate 500 (JObj [])" and allAssets = "[]" and k = 501]
    by (simp add: remote_two_pages_def)
  have second: "fetch_pages small_ids remote_two_pages (JStr ''token'') 500
         (replicate 500 (JObj []))
         (empty_world\<lparr>remote_log := [GetHardwarePage (JStr ''token'') 500 0]\<rparr>)
     = Some (Inr (replicate 500 (JObj []) @ [JObj [(''id'', JNum 501)]]),
             empty_world\<lparr>remote_log := [GetHardwarePage (JStr ''token'') 500 0,
               GetHardwarePage (JStr ''token'') 500 500]\<rparr>)"
    using paged_fetch_terminates[where remote = remote_two_pages
        and apiToken = "JStr ''token''" and T = 501, OF bounded,
        where w = "empty_world\<lparr>remote_log := [GetHardwarePage (JStr ''token'') 500 0]\<rparr>"
        and offset = 500 and to_number = small_ids
        and data = "JObj [(''total'', JNum 501), (''rows'', JArr [JObj [(''id'', JNum 501)]])]"
        and xs = "[JObj [(''id'', JNum 501)]]"
        and allAssets = "replicate 500 (JObj [])" and k = 501]
    by (simp add: remote_two_pages_def empty_world_def)
  have one: "fetch_pages small_ids remote_one_asset (JStr ''token'') 0 [] empty_world
     = Some (Inr [bare_asset],
             empty_world\<lparr>remote_log := [GetHardwarePage (JStr ''token'') 500 0]\<rparr>)"
    by code_simp
  have objects: "fetch_pages small_ids remote_object_rows (JStr ''token'') 0 [] empty_world
     = Some (Inr [JObj [(''a'', JNum 1)], JObj [(''a'', JNum 1)], JObj [(''a'', JNum 1)]],
             empty_world\<lparr>remote_log := [GetHardwarePage (JStr ''token'') 500 0,
               GetHardwarePage (JStr ''token'') 500 500,
               GetHardwarePage (JStr ''token'') 500 1000]\<rparr>)"
    by code_simp
  have total: "js_prop (snapshot [bare_asset] [bare_processed]) ''total'' = JNum 1"
    by code_simp
  from first second one objects total show ?thesis
    by (simp add: empty_world_def)
qed

text \<open>
  C8 as stated fails without that condition on the remote: against a remote whose every
  page has 500 rows and no total, neither exit condition ever holds, the loop never
  returns and the handler never answers.
\<close>

theorem endless_pages_never_return:
  "fetch_pages small_ids remote_endless (JStr ''token'') 0 [] empty_world = None
   \<and> get_assets ''admin123'' small_ids remote_endless never_parses 1000 year_2024 june_2024
        (JStr ''admin123'') (JStr ''token'') JUndefined empty_world = None"
  by (simp add: fetch_pages_endless get_assets_def cache_fresh_def empty_world_def)

end
